theory Spec2Isabelle
  imports Complex_Main
begin

section \<open>The Speller decoder of KoSpeech (kospeech/model/decoder.py)\<close>

text \<open>
  The decoder is embedded shallowly. Every raise of the Python source is a value
  \<open>Inl e\<close> of the result type \<open>error + 'a\<close>; the objects the decoder mutates or
  draws from (the random source, the language model's mode flag) are passed in and
  returned. Tensors carry their shape, because the control flow of \<open>forward\<close> and the
  failures of \<open>view\<close> and of indexing depend on shapes only. The learned modules and the
  floating-point kernels of torch are parameters of the model (record \<open>net\<close>): their
  arithmetic is not modelled, their results are opaque tensors.
\<close>

subsection \<open>Errors\<close>

datatype error =
    ValueError string
  | AttributeError string
  | IndexError string
  | RuntimeError string
  | KeyError string
  | TypeError string

fun bind_err :: "error + 'a \<Rightarrow> ('a \<Rightarrow> error + 'b) \<Rightarrow> error + 'b" where
  "bind_err (Inl e) f = Inl e"
| "bind_err (Inr x) f = f x"

subsection \<open>Tensors and the torch shape operations the decoder uses\<close>

text \<open>A tensor is its shape and its elements in row-major order.\<close>

record 'a tensor =
  shape :: "nat list"
  data :: "'a list"

definition numel :: "'a tensor \<Rightarrow> nat" where
  "numel t = prod_list (shape t)"

text \<open>\<^verbatim>\<open>t.size(d)\<close>: the extent of dimension \<open>d\<close>; a dimension the tensor does not have
  raises IndexError.\<close>

definition tensor_size :: "'a tensor \<Rightarrow> nat \<Rightarrow> error + nat" where
  "tensor_size t d =
     (if d < length (shape t) then Inr (shape t ! d)
      else Inl (IndexError ''Dimension out of range''))"

text \<open>\<^verbatim>\<open>t.view(dims)\<close>: at most one entry may be \<open>-1\<close> and is inferred. Torch infers it only
  when the product of the other entries is positive and divides the number of elements;
  without \<open>-1\<close> the product must equal the number of elements.\<close>

definition view :: "'a tensor \<Rightarrow> int list \<Rightarrow> error + 'a tensor" where
  "view t dims =
     (let known = filter (\<lambda>d. d \<noteq> -1) dims;
          newsize = prod_list known;
          n = int (numel t)
      in if list_ex (\<lambda>d. d < -1) dims then Inl (RuntimeError ''invalid shape dimension'')
         else if length known + 1 < length dims
           then Inl (RuntimeError ''only one dimension can be inferred'')
         else if length known = length dims
           then (if n = newsize then Inr (t\<lparr>shape := map nat dims\<rparr>)
                 else Inl (RuntimeError ''shape is invalid for input size''))
         else (if 0 < newsize \<and> n mod newsize = 0
               then Inr (t\<lparr>shape := map (\<lambda>d. if d = -1 then nat (n div newsize) else nat d) dims\<rparr>)
               else Inl (RuntimeError ''shape is invalid for input size'')))"

text \<open>\<^verbatim>\<open>t.squeeze(1)\<close>: drops dimension 1 when its extent is 1, keeps the tensor otherwise;
  a tensor without a dimension 1 raises.\<close>

definition squeeze1 :: "'a tensor \<Rightarrow> error + 'a tensor" where
  "squeeze1 t =
     (case shape t of
        d0 # d1 # rest \<Rightarrow> Inr (if d1 = 1 then t\<lparr>shape := d0 # rest\<rparr> else t)
      | _ \<Rightarrow> Inl (IndexError ''Dimension out of range''))"

text \<open>\<^verbatim>\<open>t.unsqueeze(1)\<close>: inserts a dimension of extent 1 at position 1.\<close>

definition unsqueeze1 :: "'a tensor \<Rightarrow> error + 'a tensor" where
  "unsqueeze1 t =
     (case shape t of
        d0 # rest \<Rightarrow> Inr (t\<lparr>shape := d0 # 1 # rest\<rparr>)
      | [] \<Rightarrow> Inl (IndexError ''Dimension out of range''))"

text \<open>\<^verbatim>\<open>t[:, i]\<close> (\<open>nidx = 2\<close>) and \<^verbatim>\<open>t[:, i, :]\<close> (\<open>nidx = 3\<close>): select index \<open>i\<close> of
  dimension 1. More indices than dimensions raise IndexError, and so does an index out
  of range; a negative index counts from the end.\<close>

definition index_dim1 :: "nat \<Rightarrow> 'a tensor \<Rightarrow> int \<Rightarrow> error + 'a tensor" where
  "index_dim1 nidx t i =
     (case shape t of
        d0 # d1 # rest \<Rightarrow>
          if length (shape t) < nidx then Inl (IndexError ''too many indices for tensor'')
          else
            let j = (if i < 0 then i + int d1 else i) in
            if j < 0 \<or> int d1 \<le> j then Inl (IndexError ''index out of range'')
            else
              let inner = prod_list rest in
              Inr \<lparr>shape = d0 # rest,
                   data = concat (map (\<lambda>a. take inner (drop ((a * d1 + nat j) * inner) (data t)))
                                      [0..<d0])\<rparr>
      | _ \<Rightarrow> Inl (IndexError ''too many indices for tensor''))"

text \<open>\<^verbatim>\<open>t[t != v]\<close>: the elements different from \<open>v\<close>, as a one-dimensional tensor.\<close>

definition masked_ne :: "int tensor \<Rightarrow> int \<Rightarrow> int tensor" where
  "masked_ne t v =
     (let xs = filter (\<lambda>x. x \<noteq> v) (data t) in \<lparr>shape = [length xs], data = xs\<rparr>)"

text \<open>\<^verbatim>\<open>torch.cat([a, b], dim=1)\<close> on two-dimensional tensors with the same number of
  rows; any other pair of shapes is reported as a RuntimeError.\<close>

definition cat_dim1 :: "'a tensor \<Rightarrow> 'a tensor \<Rightarrow> error + 'a tensor" where
  "cat_dim1 a b =
     (case (shape a, shape b) of
        ([r, ca], [r', cb]) \<Rightarrow>
          if r = r'
          then Inr \<lparr>shape = [r, ca + cb],
                    data = concat (map (\<lambda>k. take ca (drop (k * ca) (data a)) @
                                             take cb (drop (k * cb) (data b))) [0..<r])\<rparr>
          else Inl (RuntimeError ''Sizes of tensors must match except in dimension 1'')
      | _ \<Rightarrow> Inl (RuntimeError ''Sizes of tensors must match except in dimension 1''))"

text \<open>\<^verbatim>\<open>LongTensor([v] * n)\<close>.\<close>

definition LongTensor :: "int list \<Rightarrow> int tensor" where
  "LongTensor xs = \<lparr>shape = [length xs], data = xs\<rparr>"

subsection \<open>Collaborators\<close>

text \<open>The hidden state of the recurrent layer is opaque to the decoder: one tensor for a
  GRU, two for an LSTM.\<close>

type_synonym hidden = "real tensor list"

datatype attention_module = LocationAwareAttention | MultiHeadAttention

text \<open>
  The modules built in \<^verbatim>\<open>__init__\<close> (they come from kospeech.model.attention,
  kospeech.model.modules, kospeech.model.base_rnn and torch.nn, not from decoder.py) and the torch
  kernels on floating-point tensors. \<open>attention\<close> is the call \<^verbatim>\<open>self.attention(q, k, v)\<close>
  of whichever module was built; its third argument is the encoder output under
  multi-head attention and the previous alignment (absent at the first step) under
  location-aware attention. \<open>topk1\<close> is \<^verbatim>\<open>t.topk(1)[1]\<close>, \<open>scale\<close> is tensor times
  float, \<open>plus\<close> is tensor plus tensor.
\<close>

record net =
  embedding :: "int tensor \<Rightarrow> real tensor"
  input_dropout :: "real tensor \<Rightarrow> real tensor"
  rnn :: "real tensor \<Rightarrow> hidden option \<Rightarrow> real tensor \<times> hidden"
  attention :: "attention_module \<Rightarrow> real tensor \<Rightarrow> real tensor \<Rightarrow> real tensor option
                  \<Rightarrow> real tensor \<times> real tensor"
  linear1 :: "real tensor \<Rightarrow> real tensor"
  layer_norm :: "real tensor \<Rightarrow> real tensor"
  linear2 :: "real tensor \<Rightarrow> real tensor"
  log_softmax :: "real tensor \<Rightarrow> nat \<Rightarrow> real tensor"
  topk1 :: "real tensor \<Rightarrow> int tensor"
  scale :: "real tensor \<Rightarrow> real \<Rightarrow> real tensor"
  plus :: "real tensor \<Rightarrow> real tensor \<Rightarrow> real tensor"

text \<open>The external language model: its mode flag, which \<^verbatim>\<open>eval()\<close> clears, and the first
  component of what its \<^verbatim>\<open>forward_step(prev_tokens, None)\<close> returns.\<close>

record language_model =
  lm_training :: bool
  lm_forward_step :: "int tensor option \<Rightarrow> real tensor"

definition eval_mode :: "language_model \<Rightarrow> language_model" where
  "eval_mode lm = lm\<lparr>lm_training := False\<rparr>"

text \<open>The random source of \<^verbatim>\<open>random.random()\<close>: the samples it will deliver and how many
  have been drawn.\<close>

record rng =
  samples :: "nat \<Rightarrow> real"
  drawn :: nat

definition random_random :: "rng \<Rightarrow> real \<times> rng" where
  "random_random g = (samples g (drawn g), g\<lparr>drawn := drawn g + 1\<rparr>)"

subsection \<open>The Speller object and its constructor\<close>

text \<open>
  The attributes \<^verbatim>\<open>__init__\<close> sets. The two fusion weights are kept by name in
  \<open>float_attrs\<close>, because the source spells the first one differently where it is set
  (line 57) and where it is read (line 143); reading a name that was never set raises
  AttributeError, as \<^verbatim>\<open>nn.Module.__getattr__\<close> does. \<open>training\<close> is the mode flag of
  \<^verbatim>\<open>nn.Module\<close>, set at construction.
\<close>

record Speller =
  training :: bool
  hidden_dim :: int
  num_classes :: int
  num_heads :: int
  max_length :: int
  eos_id :: int
  sos_id :: int
  float_attrs :: "string \<rightharpoonup> real"
  attn_mechanism :: string
  attention_mod :: attention_module

definition getattr_float :: "Speller \<Rightarrow> string \<Rightarrow> error + real" where
  "getattr_float self name =
     (case float_attrs self name of
        None \<Rightarrow> Inl (AttributeError name)
      | Some v \<Rightarrow> Inr v)"

definition KEY_ATTENTION_SCORE :: string where
  "KEY_ATTENTION_SCORE = ''attention_score''"

definition KEY_SEQUENCE_SYMBOL :: string where
  "KEY_SEQUENCE_SYMBOL = ''sequence_symbol''"

text \<open>
  \<^verbatim>\<open>Speller.__init__\<close>. The constructors of the sub-modules (lines 51, 60, 61, 64, 66,
  70 to 72) belong to other modules and are taken to succeed; what they build is
  the \<open>net\<close> passed to the decode functions; the arguments that only feed those
  constructors (\<^verbatim>\<open>num_layers\<close>, \<^verbatim>\<open>rnn_type\<close>, \<^verbatim>\<open>dropout_p\<close>, \<^verbatim>\<open>device\<close>) are not arguments
  here. The message of the ValueError is the literal
  format string: \<^verbatim>\<open>"...%s".format(x)\<close> substitutes nothing.
\<close>

definition Speller_init ::
  "int \<Rightarrow> int \<Rightarrow> int \<Rightarrow> int \<Rightarrow> int \<Rightarrow> string \<Rightarrow> int \<Rightarrow> error + Speller" where
  "Speller_init num_classes' max_length' hidden_dim' sos_id' eos_id' attn_mechanism' num_heads' =
     (let self = \<lparr>training = True, hidden_dim = hidden_dim', num_classes = num_classes',
                  num_heads = num_heads', max_length = max_length', eos_id = eos_id',
                  sos_id = sos_id',
                  float_attrs = [''acoutsic_weight'' \<mapsto> 0.9, ''language_weight'' \<mapsto> 0.1],
                  attn_mechanism = attn_mechanism',
                  attention_mod = LocationAwareAttention\<rparr>
      in if attn_mechanism' = ''loc'' then Inr (self\<lparr>attention_mod := LocationAwareAttention\<rparr>)
         else if attn_mechanism' = ''dot'' then Inr (self\<lparr>attention_mod := MultiHeadAttention\<rparr>)
         else Inl (ValueError ''Unsupported attention: %s''))"

text \<open>\<^verbatim>\<open>nn.Module.eval()\<close> and \<^verbatim>\<open>nn.Module.train()\<close> on the decoder itself.\<close>

definition Speller_eval :: "Speller \<Rightarrow> Speller" where
  "Speller_eval self = self\<lparr>training := False\<rparr>"

subsection \<open>One decoding step\<close>

text \<open>
  \<^verbatim>\<open>Speller.forward_step\<close>, line by line. \<^verbatim>\<open>.to(device)\<close>, \<^verbatim>\<open>flatten_parameters()\<close> and
  \<^verbatim>\<open>.contiguous()\<close> change where and how a tensor is stored, not its value, and have no
  counterpart here.
\<close>

definition forward_step ::
  "Speller \<Rightarrow> net \<Rightarrow> int tensor \<Rightarrow> hidden option \<Rightarrow> real tensor \<Rightarrow> real tensor option
     \<Rightarrow> error + (real tensor \<times> hidden option \<times> real tensor option)" where
  "forward_step self nt input_var hidden encoder_outputs attn =
     bind_err (tensor_size input_var 0) (\<lambda>batch_size.
     bind_err (tensor_size input_var 1) (\<lambda>output_lengths.
       let embedded = embedding nt input_var;
           embedded = input_dropout nt embedded;
           (output, hidden') = rnn nt embedded hidden;
           (context, attn') =
              (if attn_mechanism self = ''dot''
               then attention nt (attention_mod self) output encoder_outputs (Some encoder_outputs)
               else attention nt (attention_mod self) output encoder_outputs attn)
       in
       bind_err (view context [-1, 2 * hidden_dim self]) (\<lambda>context2.
       bind_err (view (linear1 nt context2) [int batch_size, -1, hidden_dim self]) (\<lambda>output.
       bind_err (view (layer_norm nt output) [-1, hidden_dim self]) (\<lambda>normed.
         let output = linear2 nt normed;
             predicted_softmax = log_softmax nt output 1
         in
         bind_err (view predicted_softmax [int batch_size, int output_lengths, -1]) (\<lambda>v.
         bind_err (squeeze1 v) (\<lambda>step_output.
           Inr (step_output, Some hidden', Some attn'))))))))"

subsection \<open>Argument validation\<close>

text \<open>
  \<^verbatim>\<open>Speller.validate_args\<close>. \<open>inputs\<close> is \<open>None\<close> for an inference call. The language
  model, when there is one, is returned in evaluation mode; a raise leaves it as it was.
  Moving the seed to the GPU (lines 160, 161) does not change it.
\<close>

definition validate_args ::
  "Speller \<Rightarrow> int tensor option \<Rightarrow> real tensor \<Rightarrow> real \<Rightarrow> language_model option
     \<Rightarrow> error + (int tensor \<times> nat \<times> int \<times> language_model option)" where
  "validate_args self inputs encoder_outputs teacher_forcing_ratio lm =
     bind_err (tensor_size encoder_outputs 0) (\<lambda>batch_size.
     bind_err
       (case inputs of
          None \<Rightarrow>
            bind_err (view (LongTensor (replicate batch_size (sos_id self))) [int batch_size, 1])
              (\<lambda>seed.
                 if teacher_forcing_ratio > 0
                 then Inl (ValueError
                   ''Teacher forcing has to be disabled (set 0) when no inputs is provided.'')
                 else Inr (seed, max_length self))
        | Some given \<Rightarrow>
            bind_err (tensor_size given 1) (\<lambda>n. Inr (given, int n - 1)))
       (\<lambda>(inputs', max_length').
          Inr (inputs', batch_size, max_length', map_option eval_mode lm)))"

subsection \<open>The decoding loop\<close>

text \<open>The values collected in the diagnostics dictionary \<^verbatim>\<open>ret_dict\<close>.\<close>

datatype entry = AttentionScore "real tensor option" | SequenceSymbol "int tensor"

type_synonym ret_dict = "string \<rightharpoonup> entry list"

text \<open>\<^verbatim>\<open>d[key].append(x)\<close>.\<close>

definition dict_append :: "ret_dict \<Rightarrow> string \<Rightarrow> entry \<Rightarrow> error + ret_dict" where
  "dict_append d key x =
     (case d key of
        None \<Rightarrow> Inl (KeyError key)
      | Some xs \<Rightarrow> Inr (d(key \<mapsto> xs @ [x])))"

text \<open>
  Teacher forcing under location-aware attention (lines 118 to 121): one call of
  \<open>forward_step\<close> per column of the stripped targets, the recurrent state and the
  alignment threaded from each call to the next.
\<close>

fun loc_loop ::
  "Speller \<Rightarrow> net \<Rightarrow> int tensor \<Rightarrow> real tensor \<Rightarrow> nat list
     \<Rightarrow> hidden option \<times> real tensor option \<times> real tensor list
     \<Rightarrow> error + (hidden option \<times> real tensor option \<times> real tensor list)" where
  "loc_loop self nt inputs encoder_outputs [] st = Inr st"
| "loc_loop self nt inputs encoder_outputs (di # dis) (hidden, attn, decoder_outputs) =
     bind_err (index_dim1 2 inputs (int di)) (\<lambda>col.
     bind_err (unsqueeze1 col) (\<lambda>input_var.
     bind_err (forward_step self nt input_var hidden encoder_outputs attn)
       (\<lambda>(step_output, hidden', attn').
          loc_loop self nt inputs encoder_outputs dis
            (hidden', attn', decoder_outputs @ [step_output]))))"

text \<open>
  Teacher forcing under multi-head attention (lines 126 to 128): the result of the one
  batched call is cut along dimension 1.
\<close>

fun split_loop ::
  "real tensor \<Rightarrow> nat list \<Rightarrow> real tensor list \<Rightarrow> error + real tensor list" where
  "split_loop step_outputs [] decoder_outputs = Inr decoder_outputs"
| "split_loop step_outputs (di # dis) decoder_outputs =
     bind_err (index_dim1 3 step_outputs (int di)) (\<lambda>step_output.
       split_loop step_outputs dis (decoder_outputs @ [step_output]))"

text \<open>The teacher-forced branch (lines 113 to 128). It does not read \<^verbatim>\<open>max_length\<close>.\<close>

definition teacher_forced ::
  "Speller \<Rightarrow> net \<Rightarrow> int tensor \<Rightarrow> nat \<Rightarrow> real tensor \<Rightarrow> error + real tensor list" where
  "teacher_forced self nt inputs batch_size encoder_outputs =
     bind_err (view (masked_ne inputs (eos_id self)) [int batch_size, -1]) (\<lambda>inputs'.
       if attn_mechanism self = ''loc''
       then
         bind_err (tensor_size inputs' 1) (\<lambda>n.
         bind_err (loc_loop self nt inputs' encoder_outputs [0..<n] (None, None, []))
           (\<lambda>(hidden, attn, decoder_outputs). Inr decoder_outputs))
       else
         bind_err (forward_step self nt inputs' None encoder_outputs None)
           (\<lambda>(step_outputs, hidden, attn).
         bind_err (tensor_size step_outputs 1) (\<lambda>n.
           split_loop step_outputs [0..<n] [])))"

text \<open>The variables the free-running loop (lines 131 to 147) carries from step to step.\<close>

record decode_state =
  st_input_var :: "int tensor"
  st_hidden :: "hidden option"
  st_attn :: "real tensor option"
  st_prev_tokens :: "int tensor option"
  st_decoder_outputs :: "real tensor list"
  st_ret_dict :: ret_dict

text \<open>
  Lines 142 to 144, reached only outside training mode with a language model attached.
  The language model is scored first; then the left operand of the sum reads the
  attribute \<^verbatim>\<open>acoustic_weight\<close>.
\<close>

definition fuse ::
  "Speller \<Rightarrow> net \<Rightarrow> language_model \<Rightarrow> real tensor \<Rightarrow> int tensor option
     \<Rightarrow> error + (real tensor \<times> int tensor option)" where
  "fuse self nt lm step_output prev_tokens =
     bind_err (index_dim1 3 (lm_forward_step lm prev_tokens) (-1)) (\<lambda>last.
     bind_err (squeeze1 last) (\<lambda>lm_step_output.
     bind_err (getattr_float self ''acoustic_weight'') (\<lambda>aw.
     bind_err (getattr_float self ''language_weight'') (\<lambda>lw.
       let step_output' = plus nt (scale nt step_output aw) (scale nt lm_step_output lw) in
       bind_err (case prev_tokens of
                   None \<Rightarrow> Inl (TypeError ''expected Tensor as element 0 in argument 0'')
                 | Some p \<Rightarrow> cat_dim1 p (topk1 nt step_output'))
         (\<lambda>prev_tokens'. Inr (step_output', Some prev_tokens'))))))"

text \<open>
  Lines 137 to 144 of the loop body: outside training mode the alignment and the token
  just fed are appended to the diagnostics, and with a language model attached the step
  distribution is fused. The result is the diagnostics, the distribution to record and
  the token history.
\<close>

definition collect ::
  "Speller \<Rightarrow> net \<Rightarrow> language_model option \<Rightarrow> decode_state \<Rightarrow> real tensor
     \<Rightarrow> real tensor option \<Rightarrow> error + (ret_dict \<times> real tensor \<times> int tensor option)" where
  "collect self nt language_model st step_output attn' =
     (if \<not> training self
      then
        bind_err (dict_append (st_ret_dict st) KEY_ATTENTION_SCORE (AttentionScore attn'))
          (\<lambda>d1.
        bind_err (dict_append d1 KEY_SEQUENCE_SYMBOL (SequenceSymbol (st_input_var st)))
          (\<lambda>d2.
           case language_model of
             None \<Rightarrow> Inr (d2, step_output, st_prev_tokens st)
           | Some lm \<Rightarrow>
               bind_err (fuse self nt lm step_output (st_prev_tokens st))
                 (\<lambda>(step_output', prev_tokens'). Inr (d2, step_output', prev_tokens'))))
      else Inr (st_ret_dict st, step_output, st_prev_tokens st))"

text \<open>One pass through the body of the free-running loop (lines 135 to 147).\<close>

definition free_running_step ::
  "Speller \<Rightarrow> net \<Rightarrow> real tensor \<Rightarrow> language_model option \<Rightarrow> decode_state
     \<Rightarrow> error + decode_state" where
  "free_running_step self nt encoder_outputs language_model st =
     bind_err (forward_step self nt (st_input_var st) (st_hidden st) encoder_outputs (st_attn st))
       (\<lambda>(step_output, hidden', attn').
     bind_err (collect self nt language_model st step_output attn')
       (\<lambda>(d, step_output', prev_tokens').
          Inr \<lparr>st_input_var = topk1 nt step_output',
               st_hidden = hidden',
               st_attn = attn',
               st_prev_tokens = prev_tokens',
               st_decoder_outputs = st_decoder_outputs st @ [step_output'],
               st_ret_dict = d\<rparr>))"

text \<open>\<^verbatim>\<open>for di in range(max_length)\<close>: the body does not read \<open>di\<close>, so the loop is the
  body iterated; a raise ends it.\<close>

fun free_running_loop ::
  "Speller \<Rightarrow> net \<Rightarrow> real tensor \<Rightarrow> language_model option \<Rightarrow> nat \<Rightarrow> decode_state
     \<Rightarrow> error + decode_state" where
  "free_running_loop self nt encoder_outputs language_model 0 st = Inr st"
| "free_running_loop self nt encoder_outputs language_model (Suc k) st =
     bind_err (free_running_step self nt encoder_outputs language_model st)
       (free_running_loop self nt encoder_outputs language_model k)"

text \<open>The free-running branch (lines 131 to 147). \<^verbatim>\<open>range(n)\<close> is empty for \<open>n \<le> 0\<close>.\<close>

definition free_running ::
  "Speller \<Rightarrow> net \<Rightarrow> int tensor \<Rightarrow> int \<Rightarrow> real tensor \<Rightarrow> language_model option \<Rightarrow> ret_dict
     \<Rightarrow> error + (real tensor list \<times> ret_dict)" where
  "free_running self nt inputs max_length' encoder_outputs language_model d =
     bind_err (index_dim1 2 inputs 0) (\<lambda>col.
     bind_err (unsqueeze1 col) (\<lambda>input_var.
     bind_err
       (free_running_loop self nt encoder_outputs language_model (nat max_length')
          \<lparr>st_input_var = input_var,
           st_hidden = None,
           st_attn = None,
           st_prev_tokens = (if language_model \<noteq> None then Some input_var else None),
           st_decoder_outputs = [],
           st_ret_dict = d\<rparr>)
       (\<lambda>st. Inr (st_decoder_outputs st, st_ret_dict st))))"

text \<open>Lines 102 to 106: the diagnostics dictionary gets its two keys, each with an empty
  list, only outside training mode.\<close>

definition init_ret_dict :: "Speller \<Rightarrow> ret_dict" where
  "init_ret_dict self =
     (if \<not> training self
      then [KEY_ATTENTION_SCORE \<mapsto> [], KEY_SEQUENCE_SYMBOL \<mapsto> []]
      else Map.empty)"

text \<open>
  \<^verbatim>\<open>Speller.forward\<close>. The call returns its result together with the random source and
  the language model as it leaves them. Neither branch is handed the random source.
\<close>

definition forward ::
  "Speller \<Rightarrow> net \<Rightarrow> rng \<Rightarrow> int tensor option \<Rightarrow> real tensor \<Rightarrow> real \<Rightarrow> language_model option
     \<Rightarrow> (error + (real tensor list \<times> ret_dict)) \<times> rng \<times> language_model option" where
  "forward self nt g inputs encoder_outputs teacher_forcing_ratio language_model =
     (let ret_dict = init_ret_dict self
      in case validate_args self inputs encoder_outputs teacher_forcing_ratio language_model of
           Inl e \<Rightarrow> (Inl e, g, language_model)
         | Inr (inputs', batch_size, max_length', language_model') \<Rightarrow>
             let (u, g') = random_random g;
                 use_teacher_forcing = (u < teacher_forcing_ratio)
             in if use_teacher_forcing
                then (bind_err (teacher_forced self nt inputs' batch_size encoder_outputs)
                        (\<lambda>decoder_outputs. Inr (decoder_outputs, ret_dict)),
                      g', language_model')
                else (free_running self nt inputs' max_length' encoder_outputs language_model'
                        ret_dict,
                      g', language_model'))"

subsection \<open>A small decoder for running the model\<close>

text \<open>
  Concrete collaborators with the shapes of the real ones: hidden size \<open>h\<close>, \<open>c\<close>
  classes, every class scored 1, and \<open>topk1\<close> always choosing the token \<open>tok\<close>.
  \<open>scale\<close> and \<open>plus\<close> work elementwise. The embedding of the model accepts any
  token id, whereas \<^verbatim>\<open>nn.Embedding\<close> raises on an id outside the vocabulary: every run
  below feeds token ids below the number of classes only.
\<close>

definition const_tensor :: "nat list \<Rightarrow> 'a \<Rightarrow> 'a tensor" where
  "const_tensor sh v = \<lparr>shape = sh, data = replicate (prod_list sh) v\<rparr>"

definition demo_net :: "nat \<Rightarrow> nat \<Rightarrow> int \<Rightarrow> net" where
  "demo_net h c tok =
     \<lparr>embedding = (\<lambda>t. const_tensor (shape t @ [h]) 0),
      input_dropout = (\<lambda>t. t),
      rnn = (\<lambda>x hid. (x, [])),
      attention = (\<lambda>m q k v. (const_tensor (butlast (shape q) @ [2 * h]) 0,
                                const_tensor (take 2 (shape k)) 0)),
      linear1 = (\<lambda>t. const_tensor (butlast (shape t) @ [h]) 0),
      layer_norm = (\<lambda>t. t),
      linear2 = (\<lambda>t. const_tensor (butlast (shape t) @ [c]) 1),
      log_softmax = (\<lambda>t d. t),
      topk1 = (\<lambda>t. const_tensor (butlast (shape t) @ [1]) tok),
      scale = (\<lambda>t w. t\<lparr>data := map (\<lambda>x. x * w) (data t)\<rparr>),
      plus = (\<lambda>a b. a\<lparr>data := map (\<lambda>(x, y). x + y) (zip (data a) (data b))\<rparr>)\<rparr>"

definition demo_rng :: rng where
  "demo_rng = \<lparr>samples = (\<lambda>n. 1 / 2), drawn = 0\<rparr>"

text \<open>A language model that scores every class 2, for a batch of \<open>b\<close> rows.\<close>

definition demo_lm :: "nat \<Rightarrow> nat \<Rightarrow> language_model" where
  "demo_lm b c = \<lparr>lm_training = True, lm_forward_step = (\<lambda>p. const_tensor [b, 1, c] 2)\<rparr>"

text \<open>The decoders \<^verbatim>\<open>Speller(3, max_length=5, hidden_dim=1, sos_id=1, eos_id=2,
  attn_mechanism=a, num_heads=1)\<close> for \<open>a\<close> = \<^verbatim>\<open>'dot'\<close> and \<^verbatim>\<open>'loc'\<close>.\<close>

definition dot_speller :: Speller where
  "dot_speller =
     \<lparr>training = True, hidden_dim = 1, num_classes = 3, num_heads = 1, max_length = 5,
      eos_id = 2, sos_id = 1,
      float_attrs = [''acoutsic_weight'' \<mapsto> 0.9, ''language_weight'' \<mapsto> 0.1],
      attn_mechanism = ''dot'', attention_mod = MultiHeadAttention\<rparr>"

definition loc_speller :: Speller where
  "loc_speller =
     \<lparr>training = True, hidden_dim = 1, num_classes = 3, num_heads = 1, max_length = 5,
      eos_id = 2, sos_id = 1,
      float_attrs = [''acoutsic_weight'' \<mapsto> 0.9, ''language_weight'' \<mapsto> 0.1],
      attn_mechanism = ''loc'', attention_mod = LocationAwareAttention\<rparr>"

text \<open>The decoder \<open>dot_speller\<close> in evaluation mode, after the assignment
  \<^verbatim>\<open>speller.acoustic_weight = 0.9\<close> from outside the class: the only kind of decoder on which
  line 143 can be passed.\<close>

definition patched_speller :: Speller where
  "patched_speller =
     dot_speller\<lparr>training := False,
                 float_attrs := (float_attrs dot_speller)(''acoustic_weight'' \<mapsto> 0.9)\<rparr>"

text \<open>The loop state before the first free-running step of a batch of two.\<close>

definition first_state :: "Speller \<Rightarrow> decode_state" where
  "first_state self =
     \<lparr>st_input_var = \<lparr>shape = [2, 1], data = [1, 1]\<rparr>,
      st_hidden = None,
      st_attn = None,
      st_prev_tokens = Some \<lparr>shape = [2, 1], data = [1, 1]\<rparr>,
      st_decoder_outputs = [],
      st_ret_dict = init_ret_dict self\<rparr>"

subsection \<open>Vocabulary for the claims about end-of-sequence stripping\<close>

text \<open>
  The tokens a teacher-forced call keeps, in row-major order, and how many of them each
  row of a two-dimensional target tensor holds. These two functions are not code of the
  decoder; they name what its claims speak about.
\<close>

definition non_eos :: "Speller \<Rightarrow> int tensor \<Rightarrow> int list" where
  "non_eos self t = filter (\<lambda>x. x \<noteq> eos_id self) (data t)"

definition non_eos_per_row :: "Speller \<Rightarrow> int tensor \<Rightarrow> nat list" where
  "non_eos_per_row self t =
     (case shape t of
        [b, l] \<Rightarrow>
          map (\<lambda>r. length (filter (\<lambda>x. x \<noteq> eos_id self) (take l (drop (r * l) (data t)))))
              [0..<b]
      | _ \<Rightarrow> [])"

subsection \<open>Networks whose modules keep to their shapes\<close>

text \<open>
  What the decoder expects of the modules it was built with, for hidden size \<open>h\<close> and
  \<open>c\<close> classes: the embedding appends the hidden axis, the recurrent layer, dropout,
  layer normalisation and \<^verbatim>\<open>log_softmax\<close> keep the shape, the attention returns the context
  joined with the query (last axis \<open>2 * h\<close>), the linear layers map the last axis to
  \<open>h\<close> and to \<open>c\<close>, and \<^verbatim>\<open>topk(1)\<close> leaves one index per row. It is a condition
  on the collaborators, used to show that decoding returns.
\<close>

definition shape_preserving :: "nat \<Rightarrow> nat \<Rightarrow> net \<Rightarrow> bool" where
  "shape_preserving h c nt \<longleftrightarrow>
     (\<forall>t. shape (embedding nt t) = shape t @ [h]) \<and>
     (\<forall>t. shape (input_dropout nt t) = shape t) \<and>
     (\<forall>x hid. shape (fst (rnn nt x hid)) = shape x) \<and>
     (\<forall>m q k v. shape (fst (attention nt m q k v)) = butlast (shape q) @ [2 * h]) \<and>
     (\<forall>t. shape (linear1 nt t) = butlast (shape t) @ [h]) \<and>
     (\<forall>t. shape (layer_norm nt t) = shape t) \<and>
     (\<forall>t. shape (linear2 nt t) = butlast (shape t) @ [c]) \<and>
     (\<forall>t d. shape (log_softmax nt t d) = shape t) \<and>
     (\<forall>t. shape (topk1 nt t) = butlast (shape t) @ [1])"

section \<open>Properties\<close>

subsection \<open>Auxiliary facts\<close>

lemma dot_speller_init: "Speller_init 3 5 1 1 2 ''dot'' 1 = Inr dot_speller"
  by (simp add: Speller_init_def dot_speller_def)

lemma loc_speller_init: "Speller_init 3 5 1 1 2 ''loc'' 1 = Inr loc_speller"
  by (simp add: Speller_init_def loc_speller_def)

lemma bind_err_Inr_iff: "bind_err m f = Inr y \<longleftrightarrow> (\<exists>x. m = Inr x \<and> f x = Inr y)"
  by (cases m) auto

lemma view_rows_iff:
  "view t [int b, -1] = Inr t' \<longleftrightarrow>
     (0 < b \<and> b dvd numel t \<and> t' = t\<lparr>shape := [b, numel t div b]\<rparr>)"
proof -
  have m: "(int (numel t) mod int b = 0) = (b dvd numel t)"
    by (metis dvd_eq_mod_eq_0 of_nat_eq_0_iff of_nat_mod)
  have d: "nat (int (numel t) div int b) = numel t div b"
    by (metis nat_int zdiv_int)
  show ?thesis
    unfolding view_def Let_def by (simp add: m d) blast
qed

lemma view_batch_time:
  assumes "view t [int b, int T, -1] = Inr v"
  shows "0 < b \<and> 0 < T \<and> shape v = [b, T, numel t div (b * T)]"
proof -
  have d: "nat (int (numel t) div (int b * int T)) = numel t div (b * T)"
    by (metis nat_int zdiv_int of_nat_mult)
  have p: "0 < int b * int T \<Longrightarrow> 0 < b \<and> 0 < T"
    by (cases "b = 0"; cases "T = 0") simp_all
  from assms show ?thesis
    unfolding view_def Let_def by (auto simp: d split: if_splits dest: p)
qed

lemma squeeze1_shape:
  assumes "squeeze1 v = Inr s" "shape v = [b, T, k]"
  shows "shape s = (if T = 1 then [b, k] else [b, T, k])"
  using assms by (auto simp: squeeze1_def)

lemma forward_step_shape:
  assumes "forward_step self nt iv h enc a = Inr (so, h', a')"
  shows "\<exists>b T k. tensor_size iv 0 = Inr b \<and> tensor_size iv 1 = Inr T \<and> 0 < b \<and> 0 < T \<and>
                  shape so = (if T = 1 then [b, k] else [b, T, k])"
proof -
  obtain out1 hidden1 where r: "rnn nt (input_dropout nt (embedding nt iv)) h = (out1, hidden1)"
    by (cases "rnn nt (input_dropout nt (embedding nt iv)) h")
  obtain ctx attn1 where c:
    "(if attn_mechanism self = ''dot''
      then attention nt (attention_mod self) out1 enc (Some enc)
      else attention nt (attention_mod self) out1 enc a) = (ctx, attn1)"
    by (cases "(if attn_mechanism self = ''dot''
      then attention nt (attention_mod self) out1 enc (Some enc)
      else attention nt (attention_mod self) out1 enc a)")
  from assms obtain b T v t where
    b: "tensor_size iv 0 = Inr b" and T: "tensor_size iv 1 = Inr T"
    and sq: "squeeze1 v = Inr so"
    and v: "view t [int b, int T, -1] = Inr v"
    unfolding forward_step_def Let_def r c prod.case
    by (auto simp: bind_err_Inr_iff)
  from view_batch_time[OF v] squeeze1_shape[OF sq] b T show ?thesis
    by blast
qed

lemma split_loop_length:
  "split_loop so dis acc = Inr outs \<Longrightarrow> length outs = length acc + length dis"
  by (induction dis arbitrary: acc) (auto simp: bind_err_Inr_iff)

lemma loc_loop_length:
  "loc_loop self nt inputs enc dis (h, a, acc) = Inr (h', a', outs)
     \<Longrightarrow> length outs = length acc + length dis"
  by (induction dis arbitrary: h a acc) (auto simp: bind_err_Inr_iff)


lemma bind_err_InrE:
  assumes "bind_err m f = Inr y"
  obtains x where "m = Inr x" "f x = Inr y"
  using assms by (cases m) auto

lemma free_running_step_Inr:
  assumes "free_running_step self nt enc lm st = Inr st'"
  obtains step_output hidden' attn' d step_output' prev_tokens' where
    "forward_step self nt (st_input_var st) (st_hidden st) enc (st_attn st)
       = Inr (step_output, hidden', attn')"
    "collect self nt lm st step_output attn' = Inr (d, step_output', prev_tokens')"
    "st' = \<lparr>st_input_var = topk1 nt step_output', st_hidden = hidden', st_attn = attn',
           st_prev_tokens = prev_tokens',
           st_decoder_outputs = st_decoder_outputs st @ [step_output'],
           st_ret_dict = d\<rparr>"
proof -
  from assms[unfolded free_running_step_def] obtain r where
    fs: "forward_step self nt (st_input_var st) (st_hidden st) enc (st_attn st) = Inr r"
    and k1: "(case r of (step_output, hidden', attn') \<Rightarrow>
     bind_err (collect self nt lm st step_output attn')
       (\<lambda>(d, step_output', prev_tokens').
          Inr \<lparr>st_input_var = topk1 nt step_output',
               st_hidden = hidden',
               st_attn = attn',
               st_prev_tokens = prev_tokens',
               st_decoder_outputs = st_decoder_outputs st @ [step_output'],
               st_ret_dict = d\<rparr>)) = Inr st'"
    by (rule bind_err_InrE)
  obtain step_output hidden' attn' where r: "r = (step_output, hidden', attn')"
    by (cases r)
  from k1[unfolded r prod.case] obtain q where
    c: "collect self nt lm st step_output attn' = Inr q"
    and k2: "(case q of (d, step_output', prev_tokens') \<Rightarrow>
          Inr \<lparr>st_input_var = topk1 nt step_output',
               st_hidden = hidden',
               st_attn = attn',
               st_prev_tokens = prev_tokens',
               st_decoder_outputs = st_decoder_outputs st @ [step_output'],
               st_ret_dict = d\<rparr>) = Inr st'"
    by (cases "collect self nt lm st step_output attn'") auto
  obtain d step_output' prev_tokens' where q: "q = (d, step_output', prev_tokens')"
    by (cases q)
  from k2[unfolded q prod.case] have e: "st' = \<lparr>st_input_var = topk1 nt step_output', st_hidden = hidden', st_attn = attn',
           st_prev_tokens = prev_tokens',
           st_decoder_outputs = st_decoder_outputs st @ [step_output'],
           st_ret_dict = d\<rparr>" by simp
  show thesis
    by (rule that[OF fs[unfolded r] c[unfolded q] e])
qed

lemma free_running_step_outputs:
  assumes "free_running_step self nt enc lm st = Inr st'"
  shows "length (st_decoder_outputs st') = Suc (length (st_decoder_outputs st))"
  using assms by (rule free_running_step_Inr) simp

lemma free_running_loop_length:
  "free_running_loop self nt enc lm k st = Inr st'
     \<Longrightarrow> length (st_decoder_outputs st') = length (st_decoder_outputs st) + k"
proof (induction k arbitrary: st)
  case 0
  then show ?case by simp
next
  case (Suc k)
  from Suc.prems obtain st1 where
    s: "free_running_step self nt enc lm st = Inr st1"
    and l: "free_running_loop self nt enc lm k st1 = Inr st'"
    by (cases "free_running_step self nt enc lm st") auto
  from Suc.IH[OF l] free_running_step_outputs[OF s] show ?case by simp
qed

lemma validate_args_no_inputs:
  assumes "shape enc = B # rest"
  shows "validate_args self None enc ratio lm =
           (if 0 < ratio
            then Inl (ValueError
                   ''Teacher forcing has to be disabled (set 0) when no inputs is provided.'')
            else Inr (\<lparr>shape = [B, 1], data = replicate B (sos_id self)\<rparr>, B, max_length self,
                      map_option eval_mode lm))"
  using assms
  by (simp add: validate_args_def tensor_size_def view_def LongTensor_def numel_def)

lemma validate_args_no_inputs_Inr:
  assumes "validate_args self None enc ratio lm = Inr (inputs', B, ml, lm')"
  shows "ml = max_length self \<and> \<not> 0 < ratio"
proof (cases "shape enc")
  case Nil
  with assms show ?thesis by (simp add: validate_args_def tensor_size_def)
next
  case (Cons b rest)
  from assms show ?thesis
    unfolding validate_args_no_inputs[OF Cons] by (simp split: if_splits)
qed

lemma forward_Inr:
  assumes "fst (forward self nt g inputs enc ratio lm) = Inr (outs, ret)"
  shows "\<exists>inputs' B ml lm'.
    validate_args self inputs enc ratio lm = Inr (inputs', B, ml, lm') \<and>
    (samples g (drawn g) < ratio \<longrightarrow>
       teacher_forced self nt inputs' B enc = Inr outs \<and> ret = init_ret_dict self) \<and>
    (\<not> samples g (drawn g) < ratio \<longrightarrow>
       free_running self nt inputs' ml enc lm' (init_ret_dict self) = Inr (outs, ret))"
proof (cases "validate_args self inputs enc ratio lm")
  case (Inl e)
  with assms show ?thesis by (simp add: forward_def)
next
  case (Inr r)
  obtain inputs' B ml lm' where r: "r = (inputs', B, ml, lm')"
    by (cases r)
  have tf: "teacher_forced self nt inputs' B enc = Inr outs \<and> ret = init_ret_dict self"
    if "samples g (drawn g) < ratio"
    using assms that Inr r
    by (cases "teacher_forced self nt inputs' B enc")
       (simp_all add: forward_def random_random_def)
  have fr: "free_running self nt inputs' ml enc lm' (init_ret_dict self) = Inr (outs, ret)"
    if "\<not> samples g (drawn g) < ratio"
    using assms that Inr r by (simp add: forward_def random_random_def)
  from Inr r tf fr show ?thesis by simp
qed

lemma collect_training:
  "training self \<Longrightarrow>
     collect self nt lm st so a = Inr (st_ret_dict st, so, st_prev_tokens st)"
  by (simp add: collect_def)

lemma free_running_step_training:
  assumes "training self" "free_running_step self nt enc lm st = Inr st'"
  shows "st_ret_dict st' = st_ret_dict st"
  using assms(2)
  by (rule free_running_step_Inr) (simp add: collect_training[OF assms(1)])

lemma free_running_loop_training:
  "training self \<Longrightarrow> free_running_loop self nt enc lm k st = Inr st'
     \<Longrightarrow> st_ret_dict st' = st_ret_dict st"
proof (induction k arbitrary: st)
  case 0
  then show ?case by simp
next
  case (Suc k)
  from Suc.prems(2) obtain st1 where
    s: "free_running_step self nt enc lm st = Inr st1"
    and l: "free_running_loop self nt enc lm k st1 = Inr st'"
    by (cases "free_running_step self nt enc lm st") auto
  from Suc.IH[OF Suc.prems(1) l] free_running_step_training[OF Suc.prems(1) s]
  show ?case by simp
qed

lemma free_running_Inr:
  assumes "free_running self nt inputs ml enc lm d = Inr (outs, ret)"
  obtains iv st where
    "free_running_loop self nt enc lm (nat ml)
       \<lparr>st_input_var = iv, st_hidden = None, st_attn = None,
        st_prev_tokens = (if lm \<noteq> None then Some iv else None),
        st_decoder_outputs = [], st_ret_dict = d\<rparr> = Inr st"
    "outs = st_decoder_outputs st" "ret = st_ret_dict st"
proof -
  from assms obtain col where c: "index_dim1 2 inputs 0 = Inr col"
    unfolding free_running_def by (cases "index_dim1 2 inputs 0") auto
  from assms c obtain iv where u: "unsqueeze1 col = Inr iv"
    unfolding free_running_def by (cases "unsqueeze1 col") auto
  from assms c u obtain st where
    l: "free_running_loop self nt enc lm (nat ml)
       \<lparr>st_input_var = iv, st_hidden = None, st_attn = None,
        st_prev_tokens = (if lm \<noteq> None then Some iv else None),
        st_decoder_outputs = [], st_ret_dict = d\<rparr> = Inr st"
    unfolding free_running_def
    by (cases "free_running_loop self nt enc lm (nat ml)
       \<lparr>st_input_var = iv, st_hidden = None, st_attn = None,
        st_prev_tokens = (if lm \<noteq> None then Some iv else None),
        st_decoder_outputs = [], st_ret_dict = d\<rparr>") auto
  from assms c u l have "outs = st_decoder_outputs st" "ret = st_ret_dict st"
    unfolding free_running_def by simp_all
  with l show thesis by (rule that)
qed

lemma numel_masked_ne: "numel (masked_ne t v) = length (filter (\<lambda>x. x \<noteq> v) (data t))"
  by (simp add: numel_def masked_ne_def Let_def)

lemma strip_eos_iff:
  "view (masked_ne inputs (eos_id self)) [int B, -1] = Inr t \<longleftrightarrow>
     (0 < B \<and> B dvd length (non_eos self inputs) \<and>
      t = \<lparr>shape = [B, length (non_eos self inputs) div B], data = non_eos self inputs\<rparr>)"
  unfolding view_rows_iff numel_masked_ne non_eos_def
  by (simp add: masked_ne_def Let_def)

lemma teacher_forced_loc:
  assumes "teacher_forced self nt inputs B enc = Inr outs"
    and "attn_mechanism self = ''loc''"
  shows "0 < B \<and> B dvd length (non_eos self inputs) \<and>
         length outs = length (non_eos self inputs) div B"
proof -
  from assms(1) obtain t where
    v: "view (masked_ne inputs (eos_id self)) [int B, -1] = Inr t"
    unfolding teacher_forced_def
    by (cases "view (masked_ne inputs (eos_id self)) [int B, -1]") auto
  from v[unfolded strip_eos_iff] have B: "0 < B" "B dvd length (non_eos self inputs)"
    and sh: "shape t = [B, length (non_eos self inputs) div B]"
    by simp_all
  from sh have sz: "tensor_size t 1 = Inr (length (non_eos self inputs) div B)"
    by (simp add: tensor_size_def)
  from assms v sz obtain r where
    l: "loc_loop self nt t enc [0..<length (non_eos self inputs) div B] (None, None, []) = Inr r"
    and o: "(case r of (hidden, attn, decoder_outputs) \<Rightarrow> Inr decoder_outputs) = Inr outs"
    unfolding teacher_forced_def
    by (cases "loc_loop self nt t enc [0..<length (non_eos self inputs) div B] (None, None, [])")
       auto
  obtain h a where r: "r = (h, a, outs)"
    using o by (cases r) auto
  from loc_loop_length[OF l[unfolded r]] B show ?thesis by simp
qed

lemma teacher_forced_dot:
  assumes "teacher_forced self nt inputs B enc = Inr outs"
    and "attn_mechanism self \<noteq> ''loc''"
  shows "0 < B \<and> B dvd length (non_eos self inputs) \<and>
         (length (non_eos self inputs) div B \<noteq> 1 \<longrightarrow>
            length outs = length (non_eos self inputs) div B)"
proof -
  from assms(1) obtain t where
    v: "view (masked_ne inputs (eos_id self)) [int B, -1] = Inr t"
    unfolding teacher_forced_def
    by (cases "view (masked_ne inputs (eos_id self)) [int B, -1]") auto
  from v[unfolded strip_eos_iff] have B: "0 < B" "B dvd length (non_eos self inputs)"
    and sh: "shape t = [B, length (non_eos self inputs) div B]"
    by simp_all
  from sh have sz: "tensor_size t 0 = Inr B"
      "tensor_size t 1 = Inr (length (non_eos self inputs) div B)"
    by (simp_all add: tensor_size_def)
  from assms v obtain r where
    f: "forward_step self nt t None enc None = Inr r"
    and k: "(case r of (step_outputs, hidden, attn) \<Rightarrow>
              bind_err (tensor_size step_outputs 1) (\<lambda>n. split_loop step_outputs [0..<n] []))
            = Inr outs"
    unfolding teacher_forced_def
    by (cases "forward_step self nt t None enc None") auto
  obtain so h a where r: "r = (so, h, a)" by (cases r)
  from k[unfolded r prod.case] obtain m where
    m: "tensor_size so 1 = Inr m" and sp: "split_loop so [0..<m] [] = Inr outs"
    by (cases "tensor_size so 1") auto
  from forward_step_shape[OF f[unfolded r]] sz obtain k' where
    so: "shape so = (if length (non_eos self inputs) div B = 1 then [B, k']
                     else [B, length (non_eos self inputs) div B, k'])"
    by auto
  have "length outs = length (non_eos self inputs) div B"
    if "length (non_eos self inputs) div B \<noteq> 1"
  proof -
    from so that m have "m = length (non_eos self inputs) div B"
      by (simp add: tensor_size_def)
    with split_loop_length[OF sp] show ?thesis by simp
  qed
  with B show ?thesis by simp
qed

lemma teacher_forced_length:
  assumes "teacher_forced self nt inputs B enc = Inr outs"
    and "attn_mechanism self = ''loc'' \<or> length (non_eos self inputs) div B \<noteq> 1"
  shows "0 < B \<and> B dvd length (non_eos self inputs) \<and>
         length outs = length (non_eos self inputs) div B"
proof (cases "attn_mechanism self = ''loc''")
  case True
  from teacher_forced_loc[OF assms(1) True] show ?thesis .
next
  case False
  with teacher_forced_dot[OF assms(1) False] assms(2) show ?thesis by simp
qed

lemma filter_rows_length:
  "length xs = b * l \<Longrightarrow>
     (\<Sum>r\<leftarrow>[0..<b]. length (filter P (take l (drop (r * l) xs)))) = length (filter P xs)"
proof (induction b arbitrary: xs)
  case 0
  then show ?case by simp
next
  case (Suc b)
  have len: "length (drop l xs) = b * l"
    using Suc.prems by simp
  have shift: "(\<Sum>r\<leftarrow>[0..<b]. length (filter P (take l (drop (Suc r * l) xs))))
             = (\<Sum>r\<leftarrow>[0..<b]. length (filter P (take l (drop (r * l) (drop l xs)))))"
    by (simp add: add.commute)
  have "(\<Sum>r\<leftarrow>[0..<Suc b]. length (filter P (take l (drop (r * l) xs))))
        = length (filter P (take l xs))
          + (\<Sum>r\<leftarrow>[0..<b]. length (filter P (take l (drop (Suc r * l) xs))))"
    unfolding upt_conv_Cons[OF zero_less_Suc] map_Suc_upt[symmetric]
    by (simp add: comp_def)
  also have "\<dots> = length (filter P (take l xs)) + length (filter P (drop l xs))"
    unfolding shift Suc.IH[OF len] ..
  also have "\<dots> = length (filter P (take l xs @ drop l xs))"
    by (simp only: filter_append length_append)
  finally show ?case by simp
qed

lemma non_eos_rows:
  assumes "shape t = [B, L]" and "length (data t) = B * L"
  shows "sum_list (non_eos_per_row self t) = length (non_eos self t)"
  using filter_rows_length[OF assms(2)]
  by (simp add: non_eos_per_row_def non_eos_def assms(1))

lemma equal_rows_steps:
  assumes "shape t = [B, L]" and "length (data t) = B * L"
    and "non_eos_per_row self t = replicate B k" and "0 < B"
  shows "length (non_eos self t) div B = k"
proof -
  from non_eos_rows[OF assms(1,2), of self] have "length (non_eos self t) = B * k"
    unfolding assms(3) by (simp add: sum_list_replicate)
  with assms(4) show ?thesis by simp
qed

lemma equal_rows_reshape:
  assumes "shape t = [B, L]" and "length (data t) = B * L"
    and "non_eos_per_row self t = replicate B k" and "0 < B"
  shows "view (masked_ne t (eos_id self)) [int B, -1]
           = Inr \<lparr>shape = [B, k], data = non_eos self t\<rparr>"
proof -
  from non_eos_rows[OF assms(1,2), of self] have n: "length (non_eos self t) = B * k"
    unfolding assms(3) by (simp add: sum_list_replicate)
  then have "B dvd length (non_eos self t)" by simp
  moreover from n assms(4) have "length (non_eos self t) div B = k" by simp
  ultimately show ?thesis
    unfolding strip_eos_iff using assms(4) by simp
qed

lemma collect_fused:
  assumes "collect self nt (Some lm) st so a = Inr (d, so', pt')" and "\<not> training self"
  shows "fuse self nt lm so (st_prev_tokens st) = Inr (so', pt')"
proof -
  from assms obtain d1 where
    d1: "dict_append (st_ret_dict st) KEY_ATTENTION_SCORE (AttentionScore a) = Inr d1"
    unfolding collect_def
    by (cases "dict_append (st_ret_dict st) KEY_ATTENTION_SCORE (AttentionScore a)") auto
  from assms d1 obtain d2 where
    d2: "dict_append d1 KEY_SEQUENCE_SYMBOL (SequenceSymbol (st_input_var st)) = Inr d2"
    unfolding collect_def
    by (cases "dict_append d1 KEY_SEQUENCE_SYMBOL (SequenceSymbol (st_input_var st))") auto
  from assms d1 d2 show ?thesis
    unfolding collect_def
    by (cases "fuse self nt lm so (st_prev_tokens st)") auto
qed

lemma constructed_has_no_acoustic_weight:
  assumes "Speller_init nc ml hdim sos eos a nh = Inr s"
  shows "float_attrs s ''acoustic_weight'' = None"
  using assms by (auto simp: Speller_init_def Let_def split: if_splits)

lemma fuse_raises:
  assumes "float_attrs self ''acoustic_weight'' = None"
  shows "fuse self nt lm so pt \<noteq> Inr r"
proof (cases "index_dim1 3 (lm_forward_step lm pt) (-1)")
  case (Inl e)
  then show ?thesis by (simp add: fuse_def)
next
  case (Inr last)
  show ?thesis
  proof (cases "squeeze1 last")
    case (Inl e)
    with Inr show ?thesis by (simp add: fuse_def)
  next
    case sq: (Inr x)
    with Inr assms show ?thesis by (simp add: fuse_def getattr_float_def)
  qed
qed

lemma fused_step_never_returns:
  assumes "float_attrs self ''acoustic_weight'' = None" and "\<not> training self"
  shows "free_running_step self nt enc (Some lm) st \<noteq> Inr st'"
proof
  assume "free_running_step self nt enc (Some lm) st = Inr st'"
  then obtain so h a d so' pt' where
    c: "collect self nt (Some lm) st so a = Inr (d, so', pt')"
    by (rule free_running_step_Inr)
  from collect_fused[OF c assms(2)] fuse_raises[OF assms(1)] show False by blast
qed

lemma validate_args_lm:
  assumes "validate_args self inputs enc ratio lm = Inr (inputs', B, ml, lm')"
  shows "lm' = map_option eval_mode lm"
proof -
  from assms obtain b where b: "tensor_size enc 0 = Inr b"
    unfolding validate_args_def by (cases "tensor_size enc 0") auto
  have h: "bind_err m (\<lambda>(inputs', max_length').
          Inr (inputs', b, max_length', map_option eval_mode lm)) = Inr (inputs', B, ml, lm')
        \<Longrightarrow> lm' = map_option eval_mode lm" for m :: "error + (int tensor \<times> int)"
    by (cases m) auto
  show ?thesis
    by (rule h[OF assms[unfolded validate_args_def b bind_err.simps]])
qed

lemma free_running_with_lm_never_returns:
  assumes "float_attrs self ''acoustic_weight'' = None" and "\<not> training self"
    and "0 < max_length self" and "0 \<le> samples g (drawn g)"
  shows "fst (forward self nt g None enc 0 (Some lm)) \<noteq> Inr r"
proof
  assume a: "fst (forward self nt g None enc 0 (Some lm)) = Inr r"
  obtain outs ret where r: "r = (outs, ret)" by (cases r)
  from forward_Inr[OF a[unfolded r]] assms(4) obtain inputs' B ml lm' where
    v: "validate_args self None enc 0 (Some lm) = Inr (inputs', B, ml, lm')"
    and fr: "free_running self nt inputs' ml enc lm' (init_ret_dict self) = Inr (outs, ret)"
    by auto
  from validate_args_no_inputs_Inr[OF v] have ml: "ml = max_length self" by simp
  from validate_args_lm[OF v] have lm': "lm' = Some (eval_mode lm)" by simp
  from fr obtain iv st where
    l: "free_running_loop self nt enc lm' (nat ml)
       \<lparr>st_input_var = iv, st_hidden = None, st_attn = None,
        st_prev_tokens = (if lm' \<noteq> None then Some iv else None),
        st_decoder_outputs = [], st_ret_dict = init_ret_dict self\<rparr> = Inr st"
    by (rule free_running_Inr)
  from assms(3) ml obtain k where k: "nat ml = Suc k"
    by (cases "nat ml") auto
  from l[unfolded k lm'] obtain st1 where
    "free_running_step self nt enc (Some (eval_mode lm))
       \<lparr>st_input_var = iv, st_hidden = None, st_attn = None,
        st_prev_tokens = (if Some (eval_mode lm) \<noteq> None then Some iv else None),
        st_decoder_outputs = [], st_ret_dict = init_ret_dict self\<rparr> = Inr st1"
    unfolding free_running_loop.simps by (rule bind_err_InrE)
  with fused_step_never_returns[OF assms(1,2)] show False by blast
qed

lemma split_loop_two_dim:
  assumes "shape so = [b, k]" and "split_loop so [0..<k] [] = Inr outs"
  shows "k = 0 \<and> outs = []"
proof (cases k)
  case 0
  with assms show ?thesis by simp
next
  case (Suc j)
  have "index_dim1 3 so (int 0) = Inl (IndexError ''too many indices for tensor'')"
    using assms(1) by (simp add: index_dim1_def)
  moreover from assms(2) have "split_loop so (0 # [Suc 0..<Suc j]) [] = Inr outs"
    unfolding Suc by (simp only: upt_conv_Cons[OF zero_less_Suc])
  ultimately show ?thesis by simp
qed

lemma dot_single_column:
  assumes "teacher_forced self nt inputs B enc = Inr outs"
    and "attn_mechanism self \<noteq> ''loc''"
    and "length (non_eos self inputs) div B = 1"
  shows "outs = []"
proof -
  from assms(1) obtain t where
    v: "view (masked_ne inputs (eos_id self)) [int B, -1] = Inr t"
    unfolding teacher_forced_def
    by (cases "view (masked_ne inputs (eos_id self)) [int B, -1]") auto
  from v[unfolded strip_eos_iff] assms(3) have sh: "shape t = [B, 1]"
    by simp
  from sh have sz: "tensor_size t 0 = Inr B" "tensor_size t 1 = Inr 1"
    by (simp_all add: tensor_size_def)
  from assms(1,2) v obtain r where
    f: "forward_step self nt t None enc None = Inr r"
    and k: "(case r of (step_outputs, hidden, attn) \<Rightarrow>
              bind_err (tensor_size step_outputs 1) (\<lambda>n. split_loop step_outputs [0..<n] []))
            = Inr outs"
    unfolding teacher_forced_def
    by (cases "forward_step self nt t None enc None") auto
  obtain so h a where r: "r = (so, h, a)" by (cases r)
  from k[unfolded r prod.case] obtain m where
    m: "tensor_size so 1 = Inr m" and sp: "split_loop so [0..<m] [] = Inr outs"
    by (cases "tensor_size so 1") auto
  from forward_step_shape[OF f[unfolded r]] sz obtain k' where so: "shape so = [B, k']"
    by auto
  from so m have "m = k'" by (simp add: tensor_size_def)
  with split_loop_two_dim[OF so] sp show ?thesis by simp
qed

lemma view_flat:
  assumes "numel t = N * d" and "0 < d"
  shows "view t [-1, int d] = Inr (t\<lparr>shape := [N, d]\<rparr>)"
proof -
  have "int (N * d) div int d = int N" using assms(2) by (simp add: zdiv_int[symmetric])
  moreover have "int (N * d) mod int d = 0" by (simp add: zmod_int[symmetric])
  ultimately show ?thesis
    using assms by (simp add: view_def Let_def)
qed

lemma view_mid:
  assumes "numel t = B * T * d" and "0 < B" and "0 < d"
  shows "view t [int B, -1, int d] = Inr (t\<lparr>shape := [B, T, d]\<rparr>)"
proof -
  have e: "int (B * T * d) = int T * (int B * int d)" by simp
  have p: "0 < int B * int d" using assms(2,3) by simp
  have nz: "int B * int d \<noteq> 0" using assms(2,3) by simp
  have "int (B * T * d) div (int B * int d) = int T"
    unfolding e by (rule nonzero_mult_div_cancel_right[OF nz])
  moreover have "int (B * T * d) mod (int B * int d) = 0"
    unfolding e by simp
  ultimately show ?thesis
    using assms p by (simp add: view_def Let_def)
qed

lemma view_last:
  assumes "numel t = B * T * c" and "0 < B" and "0 < T"
  shows "view t [int B, int T, -1] = Inr (t\<lparr>shape := [B, T, c]\<rparr>)"
proof -
  have e: "int (B * T * c) = int c * (int B * int T)" by simp
  have p: "0 < int B * int T" using assms(2,3) by simp
  have nz: "int B * int T \<noteq> 0" using assms(2,3) by simp
  have "int (B * T * c) div (int B * int T) = int c"
    unfolding e by (rule nonzero_mult_div_cancel_right[OF nz])
  moreover have "int (B * T * c) mod (int B * int T) = 0"
    unfolding e by simp
  ultimately show ?thesis
    using assms p by (simp add: view_def Let_def)
qed

lemma forward_step_returns:
  assumes sp: "shape_preserving h c nt" and hd: "hidden_dim self = int h" and h: "0 < h"
    and iv: "shape iv = [B, T]" and B: "0 < B" and T: "0 < T"
  shows "\<exists>so h' a'. forward_step self nt iv hid enc a = Inr (so, h', a') \<and>
                     shape so = (if T = 1 then [B, c] else [B, T, c])"
proof -
  have s0: "tensor_size iv 0 = Inr B" and s1: "tensor_size iv 1 = Inr T"
    using iv by (simp_all add: tensor_size_def)
  obtain out1 hid1 where r: "rnn nt (input_dropout nt (embedding nt iv)) hid = (out1, hid1)"
    by (cases "rnn nt (input_dropout nt (embedding nt iv)) hid")
  have o1: "shape out1 = [B, T, h]"
    using sp r iv unfolding shape_preserving_def by (metis fst_conv append_Cons append_Nil)
  obtain ctx at1 where c:
    "(if attn_mechanism self = ''dot''
      then attention nt (attention_mod self) out1 enc (Some enc)
      else attention nt (attention_mod self) out1 enc a) = (ctx, at1)"
    by (cases "(if attn_mechanism self = ''dot''
      then attention nt (attention_mod self) out1 enc (Some enc)
      else attention nt (attention_mod self) out1 enc a)")
  have "shape ctx = butlast (shape out1) @ [2 * h]"
    using sp c unfolding shape_preserving_def by (metis fst_conv)
  with o1 have cs: "shape ctx = [B, T, 2 * h]" by simp
  have v1: "view ctx [-1, 2 * hidden_dim self] = Inr (ctx\<lparr>shape := [B * T, 2 * h]\<rparr>)"
    using view_flat[of ctx "B * T" "2 * h"] cs h hd by (simp add: numel_def)
  define l1 where "l1 = linear1 nt (ctx\<lparr>shape := [B * T, 2 * h]\<rparr>)"
  have l1s: "shape l1 = [B * T, h]"
    using sp unfolding shape_preserving_def l1_def by simp
  have v2: "view l1 [int B, -1, hidden_dim self] = Inr (l1\<lparr>shape := [B, T, h]\<rparr>)"
    using view_mid[of l1 B T h] l1s B h hd by (simp add: numel_def)
  define ln where "ln = layer_norm nt (l1\<lparr>shape := [B, T, h]\<rparr>)"
  have lns: "shape ln = [B, T, h]"
    using sp unfolding shape_preserving_def ln_def by simp
  have v3: "view ln [-1, hidden_dim self] = Inr (ln\<lparr>shape := [B * T, h]\<rparr>)"
    using view_flat[of ln "B * T" h] lns h hd by (simp add: numel_def)
  define ps where "ps = log_softmax nt (linear2 nt (ln\<lparr>shape := [B * T, h]\<rparr>)) 1"
  have pss: "shape ps = [B * T, c]"
    using sp unfolding shape_preserving_def ps_def by simp
  have v4: "view ps [int B, int T, -1] = Inr (ps\<lparr>shape := [B, T, c]\<rparr>)"
    using view_last[of ps B T c] pss B T by (simp add: numel_def)
  have sq: "squeeze1 (ps\<lparr>shape := [B, T, c]\<rparr>)
              = Inr (if T = 1 then ps\<lparr>shape := [B, c]\<rparr> else ps\<lparr>shape := [B, T, c]\<rparr>)"
    by (simp add: squeeze1_def)
  have "forward_step self nt iv hid enc a
          = Inr (if T = 1 then ps\<lparr>shape := [B, c]\<rparr> else ps\<lparr>shape := [B, T, c]\<rparr>,
                 Some hid1, Some at1)"
    unfolding forward_step_def s0 s1 bind_err.simps Let_def r prod.case c v1
      l1_def[symmetric] v2 ln_def[symmetric] v3 ps_def[symmetric] v4 sq ..
  then show ?thesis by auto
qed

lemma collect_returns:
  assumes "lm = None \<or> training self"
    and "\<not> training self \<Longrightarrow>
           KEY_ATTENTION_SCORE \<in> dom (st_ret_dict st) \<and> KEY_SEQUENCE_SYMBOL \<in> dom (st_ret_dict st)"
  shows "\<exists>d pt. collect self nt lm st so a = Inr (d, so, pt) \<and>
                (\<not> training self \<longrightarrow>
                   KEY_ATTENTION_SCORE \<in> dom d \<and> KEY_SEQUENCE_SYMBOL \<in> dom d)"
proof (cases "training self")
  case True
  then show ?thesis by (simp add: collect_training)
next
  case False
  with assms(1) have lm: "lm = None" by simp
  from assms(2)[OF False] obtain xs ys where
    x: "st_ret_dict st KEY_ATTENTION_SCORE = Some xs"
    and y: "st_ret_dict st KEY_SEQUENCE_SYMBOL = Some ys"
    by auto
  have ne: "KEY_SEQUENCE_SYMBOL \<noteq> KEY_ATTENTION_SCORE"
    by (simp add: KEY_SEQUENCE_SYMBOL_def KEY_ATTENTION_SCORE_def)
  show ?thesis
    using False lm x y ne by (simp add: collect_def dict_append_def)
qed

lemma free_running_step_returns:
  assumes sp: "shape_preserving h c nt" and hd: "hidden_dim self = int h" and h: "0 < h"
    and iv: "shape (st_input_var st) = [B, 1]" and B: "0 < B"
    and lm: "lm = None \<or> training self"
    and keys: "\<not> training self \<Longrightarrow>
           KEY_ATTENTION_SCORE \<in> dom (st_ret_dict st) \<and> KEY_SEQUENCE_SYMBOL \<in> dom (st_ret_dict st)"
  shows "\<exists>st'. free_running_step self nt enc lm st = Inr st' \<and>
               shape (st_input_var st') = [B, 1] \<and>
               (\<not> training self \<longrightarrow>
                  KEY_ATTENTION_SCORE \<in> dom (st_ret_dict st') \<and>
                  KEY_SEQUENCE_SYMBOL \<in> dom (st_ret_dict st'))"
proof -
  from forward_step_returns[OF sp hd h iv B, of "st_hidden st" enc "st_attn st"]
  obtain so h' a' where
    fs: "forward_step self nt (st_input_var st) (st_hidden st) enc (st_attn st) = Inr (so, h', a')"
    and so: "shape so = [B, c]"
    by auto
  from collect_returns[OF lm keys, of nt so a'] obtain d pt where
    co: "collect self nt lm st so a' = Inr (d, so, pt)"
    and dk: "\<not> training self \<longrightarrow>
                   KEY_ATTENTION_SCORE \<in> dom d \<and> KEY_SEQUENCE_SYMBOL \<in> dom d"
    by blast
  have tk: "shape (topk1 nt so) = [B, 1]"
    using sp so unfolding shape_preserving_def by simp
  have "free_running_step self nt enc lm st =
          Inr \<lparr>st_input_var = topk1 nt so, st_hidden = h', st_attn = a', st_prev_tokens = pt,
               st_decoder_outputs = st_decoder_outputs st @ [so], st_ret_dict = d\<rparr>"
    unfolding free_running_step_def fs bind_err.simps prod.case co ..
  with tk dk show ?thesis by simp
qed

lemma free_running_loop_returns:
  assumes sp: "shape_preserving h c nt" and hd: "hidden_dim self = int h" and h: "0 < h"
    and B: "0 < B" and lm: "lm = None \<or> training self"
  shows "shape (st_input_var st) = [B, 1] \<Longrightarrow>
         (\<not> training self \<Longrightarrow>
           KEY_ATTENTION_SCORE \<in> dom (st_ret_dict st) \<and> KEY_SEQUENCE_SYMBOL \<in> dom (st_ret_dict st))
         \<Longrightarrow> \<exists>st'. free_running_loop self nt enc lm k st = Inr st'"
proof (induction k arbitrary: st)
  case 0
  then show ?case by simp
next
  case (Suc k)
  from free_running_step_returns[OF sp hd h Suc.prems(1) B lm Suc.prems(2)]
  obtain st1 where
    s: "free_running_step self nt enc lm st = Inr st1"
    and i: "shape (st_input_var st1) = [B, 1]"
    and d: "\<not> training self \<longrightarrow>
                  KEY_ATTENTION_SCORE \<in> dom (st_ret_dict st1) \<and>
                  KEY_SEQUENCE_SYMBOL \<in> dom (st_ret_dict st1)"
    by blast
  from Suc.IH[OF i] d obtain st' where "free_running_loop self nt enc lm k st1 = Inr st'"
    by blast
  with s show ?case by simp
qed

lemma free_running_call_returns:
  assumes sp: "shape_preserving h c nt" and hd: "hidden_dim self = int h" and h: "0 < h"
    and enc: "shape enc = B # rest" and B: "0 < B"
    and u: "0 \<le> samples g (drawn g)"
    and lm: "lm = None \<or> training self"
  shows "\<exists>outs ret. fst (forward self nt g None enc 0 lm) = Inr (outs, ret) \<and>
                    length outs = nat (max_length self)"
proof -
  define seed :: "int tensor" where "seed = \<lparr>shape = [B, 1], data = replicate B (sos_id self)\<rparr>"
  define lm' where "lm' = map_option eval_mode lm"
  have v: "validate_args self None enc 0 lm = Inr (seed, B, max_length self, lm')"
    unfolding seed_def lm'_def using validate_args_no_inputs[OF enc, of self 0 lm] by simp
  have fw: "fst (forward self nt g None enc 0 lm)
              = free_running self nt seed (max_length self) enc lm' (init_ret_dict self)"
    using u by (simp add: forward_def v random_random_def)
  obtain col where col: "index_dim1 2 seed 0 = Inr col" and cs: "shape col = [B]"
    by (simp add: index_dim1_def seed_def)
  have un: "unsqueeze1 col = Inr (col\<lparr>shape := [B, 1]\<rparr>)"
    using cs by (simp add: unsqueeze1_def)
  define st0 where "st0 =
     \<lparr>st_input_var = col\<lparr>shape := [B, 1]\<rparr>, st_hidden = None, st_attn = None,
      st_prev_tokens = (if lm' \<noteq> None then Some (col\<lparr>shape := [B, 1]\<rparr>) else None),
      st_decoder_outputs = [], st_ret_dict = init_ret_dict self\<rparr>"
  have i: "shape (st_input_var st0) = [B, 1]"
    by (simp add: st0_def)
  have k: "KEY_ATTENTION_SCORE \<in> dom (st_ret_dict st0) \<and> KEY_SEQUENCE_SYMBOL \<in> dom (st_ret_dict st0)"
    if "\<not> training self"
    using that by (simp add: st0_def init_ret_dict_def)
  have lm2: "lm' = None \<or> training self"
    using lm by (auto simp: lm'_def)
  from free_running_loop_returns[OF sp hd h B lm2 i k, of enc "nat (max_length self)"]
  obtain st' where
    l: "free_running_loop self nt enc lm' (nat (max_length self)) st0 = Inr st'"
    by blast
  from free_running_loop_length[OF l] have len: "length (st_decoder_outputs st') = nat (max_length self)"
    by (simp add: st0_def)
  have "free_running self nt seed (max_length self) enc lm' (init_ret_dict self)
          = Inr (st_decoder_outputs st', st_ret_dict st')"
    unfolding free_running_def col bind_err.simps un st0_def[symmetric] l ..
  with fw len show ?thesis by simp
qed

lemma demo_net_shape_preserving: "shape_preserving h c (demo_net h c tok)"
  by (simp add: shape_preserving_def demo_net_def const_tensor_def)

subsection \<open>Claims about construction and argument validation\<close>

text \<open>
  Claim C5. Constructing the decoder with an attention selector other than \<^verbatim>\<open>'loc'\<close> and
  \<^verbatim>\<open>'dot'\<close> raises the ValueError of line 68 (the configuration error of the
  specification): no decoder object exists on which a decode call could run.
\<close>

theorem unsupported_attention_raises:
  assumes "a \<noteq> ''loc''" and "a \<noteq> ''dot''"
  shows "Speller_init nc ml hdim sos eos a nh = Inl (ValueError ''Unsupported attention: %s'')"
  using assms by (simp add: Speller_init_def)

theorem unsupported_attention_raises_witness:
  "''bogus'' \<noteq> ''loc'' \<and> ''bogus'' \<noteq> ''dot'' \<and>
   Speller_init 3 5 1 1 2 ''bogus'' 1 = Inl (ValueError ''Unsupported attention: %s'')"
  using unsupported_attention_raises [of "''bogus''" 3 5 1 1 2 1] by simp

text \<open>
  Claim C4. A decode call without targets and with a positive teacher-forcing probability
  ends in the ValueError of line 164 (the invalid-argument error of the specification);
  the result does not depend on the network, no random sample has been drawn and the
  language model has not been touched, so no decode step ran. With probability 0 the
  validation returns a column of \<open>batch_size\<close> start-of-sequence tokens as seed and the
  configured maximum as length cap. The encoder output has at least one dimension, its
  first being the batch size.
\<close>

theorem no_targets_validation:
  assumes "shape enc = B # rest"
  shows "(0 < ratio \<longrightarrow>
            forward self nt g None enc ratio lm =
              (Inl (ValueError
                 ''Teacher forcing has to be disabled (set 0) when no inputs is provided.''),
               g, lm)) \<and>
         (ratio = 0 \<longrightarrow>
            validate_args self None enc ratio lm =
              Inr (\<lparr>shape = [B, 1], data = replicate B (sos_id self)\<rparr>, B, max_length self,
                   map_option eval_mode lm))"
  by (simp add: forward_def validate_args_no_inputs[OF assms])

theorem no_targets_validation_witness:
  "forward dot_speller (demo_net 1 3 2) demo_rng None (const_tensor [2, 4, 1] 0) (1 / 2) None =
     (Inl (ValueError ''Teacher forcing has to be disabled (set 0) when no inputs is provided.''),
      demo_rng, None) \<and>
   validate_args dot_speller None (const_tensor [2, 4, 1] 0) 0 None =
     Inr (\<lparr>shape = [2, 1], data = [1, 1]\<rparr>, 2, 5, None)"
  using no_targets_validation [of "const_tensor [2, 4, 1] 0" 2 "[4, 1]" "1 / 2" dot_speller
          "demo_net 1 3 2" demo_rng None]
        no_targets_validation [of "const_tensor [2, 4, 1] 0" 2 "[4, 1]" 0 dot_speller
          "demo_net 1 3 2" demo_rng None]
  by (simp add: const_tensor_def dot_speller_def numeral_2_eq_2)

subsection \<open>Claims about the decoding loop\<close>

text \<open>
  Claim C6. Once validation has passed, a decode call draws exactly one sample from the
  random source (the counter of drawn samples grows by one), before either branch runs;
  the teacher-forced branch is taken exactly when that sample is below the
  teacher-forcing probability, and the branches themselves are not given the random
  source, so the choice holds for the whole call.
\<close>

theorem mode_selection_single_draw:
  assumes "validate_args self inputs enc ratio lm = Inr (inputs', B, ml, lm')"
  shows "forward self nt g inputs enc ratio lm =
           ((if samples g (drawn g) < ratio
             then bind_err (teacher_forced self nt inputs' B enc)
                    (\<lambda>decoder_outputs. Inr (decoder_outputs, init_ret_dict self))
             else free_running self nt inputs' ml enc lm' (init_ret_dict self)),
            g\<lparr>drawn := drawn g + 1\<rparr>, lm')"
  using assms by (simp add: forward_def random_random_def)

theorem mode_selection_single_draw_witness:
  "validate_args dot_speller (Some \<lparr>shape = [2, 3], data = [1, 0, 2, 1, 0, 2]\<rparr>)
     (const_tensor [2, 4, 1] 0) 1 None
     = Inr (\<lparr>shape = [2, 3], data = [1, 0, 2, 1, 0, 2]\<rparr>, 2, 2, None) \<and>
   samples demo_rng (drawn demo_rng) < 1 \<and>
   forward dot_speller (demo_net 1 3 2) demo_rng
     (Some \<lparr>shape = [2, 3], data = [1, 0, 2, 1, 0, 2]\<rparr>) (const_tensor [2, 4, 1] 0) 1 None
     = (bind_err (teacher_forced dot_speller (demo_net 1 3 2)
                   \<lparr>shape = [2, 3], data = [1, 0, 2, 1, 0, 2]\<rparr> 2 (const_tensor [2, 4, 1] 0))
          (\<lambda>decoder_outputs. Inr (decoder_outputs, init_ret_dict dot_speller)),
        demo_rng\<lparr>drawn := 1\<rparr>, None)"
proof -
  have v: "validate_args dot_speller (Some \<lparr>shape = [2, 3], data = [1, 0, 2, 1, 0, 2]\<rparr>)
     (const_tensor [2, 4, 1] 0) 1 None
     = Inr (\<lparr>shape = [2, 3], data = [1, 0, 2, 1, 0, 2]\<rparr>, 2, 2, None)"
    by (simp add: validate_args_def tensor_size_def const_tensor_def)
  have s: "samples demo_rng (drawn demo_rng) < 1"
    by (simp add: demo_rng_def)
  from mode_selection_single_draw [OF v, of "demo_net 1 3 2" demo_rng] v s
  show ?thesis by (simp add: demo_rng_def)
qed

text \<open>
  The length of the free-running trace. A free-running decode call (no targets,
  probability 0) that returns, returns a trace with exactly as many entries as the
  configured maximum length, whatever tokens the network chooses on the way, the
  end-of-sequence token included: the loop has no early stop. The sample of the random
  source is not negative and the configured maximum is not negative. Lemma
  \<open>free_running_call_returns\<close> shows that the call does return when the modules keep to
  their shapes, the batch is not empty, and no language model is attached or the decoder
  is in training mode.
\<close>

theorem free_running_trace_length:
  assumes "0 \<le> max_length self"
    and "0 \<le> samples g (drawn g)"
    and "fst (forward self nt g None enc 0 lm) = Inr (outs, ret)"
  shows "int (length outs) = max_length self"
proof -
  from forward_Inr[OF assms(3)] obtain inputs' B ml lm' where
    v: "validate_args self None enc 0 lm = Inr (inputs', B, ml, lm')"
    and fr: "\<not> samples g (drawn g) < 0 \<Longrightarrow>
       free_running self nt inputs' ml enc lm' (init_ret_dict self) = Inr (outs, ret)"
    by blast
  from validate_args_no_inputs_Inr[OF v] have ml: "ml = max_length self" by simp
  from fr assms(2) have "free_running self nt inputs' ml enc lm' (init_ret_dict self) = Inr (outs, ret)"
    by simp
  then obtain iv st where
    l: "free_running_loop self nt enc lm' (nat ml)
       \<lparr>st_input_var = iv, st_hidden = None, st_attn = None,
        st_prev_tokens = (if lm' \<noteq> None then Some iv else None),
        st_decoder_outputs = [], st_ret_dict = init_ret_dict self\<rparr> = Inr st"
    and o: "outs = st_decoder_outputs st"
    by (rule free_running_Inr)
  from free_running_loop_length[OF l] o have "length outs = nat ml" by simp
  with ml assms(1) show ?thesis by simp
qed

theorem free_running_trace_length_witness:
  "0 \<le> max_length (Speller_eval dot_speller) \<and>
   0 \<le> samples demo_rng (drawn demo_rng) \<and>
   map_sum id (length \<circ> fst)
     (fst (forward (Speller_eval dot_speller) (demo_net 1 3 2) demo_rng None
             (const_tensor [2, 4, 1] 0) 0 None)) = Inr 5"
proof -
  have m: "0 \<le> max_length (Speller_eval dot_speller)"
    by (simp add: Speller_eval_def dot_speller_def)
  have s: "0 \<le> samples demo_rng (drawn demo_rng)"
    by (simp add: demo_rng_def)
  have "map_sum id (\<lambda>r. ()) (fst (forward (Speller_eval dot_speller) (demo_net 1 3 2) demo_rng None
             (const_tensor [2, 4, 1] 0) 0 None)) = Inr ()"
    by code_simp
  then obtain outs ret where
    e: "fst (forward (Speller_eval dot_speller) (demo_net 1 3 2) demo_rng None
             (const_tensor [2, 4, 1] 0) 0 None) = Inr (outs, ret)"
    by (cases "fst (forward (Speller_eval dot_speller) (demo_net 1 3 2) demo_rng None
             (const_tensor [2, 4, 1] 0) 0 None)") auto
  from free_running_trace_length [OF m s e] have "length outs = 5"
    by (simp add: Speller_eval_def dot_speller_def)
  with m s e show ?thesis by simp
qed

text \<open>
  Claim C3. Every free-running decode call (no targets, probability 0) is to return a
  trace of exactly the configured maximum length. The loop has no early stop, and the
  calls that return do so with that length, as shown above; but a call with a language
  model attached, on a decoder built by \<^verbatim>\<open>__init__\<close> and switched to evaluation mode,
  returns no trace at all: its first step ends in the AttributeError of line 143 (line 57
  stores the weight under a misspelt name), here with a configured maximum of 5. Lemma
  \<open>free_running_with_lm_never_returns\<close> shows this for every such decoder with a
  positive maximum length, and for every network.
\<close>

theorem free_running_with_language_model_raises:
  "Speller_init 3 5 1 1 2 ''loc'' 1 = Inr loc_speller \<and>
   max_length (Speller_eval loc_speller) = 5 \<and>
   fst (forward (Speller_eval loc_speller) (demo_net 1 3 2) demo_rng None
          (const_tensor [1, 4, 1] 0) 0 (Some (demo_lm 1 3)))
     = Inl (AttributeError ''acoustic_weight'')"
proof -
  have "map_sum id (\<lambda>r. ())
          (fst (forward (Speller_eval loc_speller) (demo_net 1 3 2) demo_rng None
             (const_tensor [1, 4, 1] 0) 0 (Some (demo_lm 1 3))))
        = Inl (AttributeError ''acoustic_weight'')"
    by code_simp
  then have "fst (forward (Speller_eval loc_speller) (demo_net 1 3 2) demo_rng None
          (const_tensor [1, 4, 1] 0) 0 (Some (demo_lm 1 3)))
     = Inl (AttributeError ''acoustic_weight'')"
    by (cases "fst (forward (Speller_eval loc_speller) (demo_net 1 3 2) demo_rng None
          (const_tensor [1, 4, 1] 0) 0 (Some (demo_lm 1 3)))") auto
  moreover have "max_length (Speller_eval loc_speller) = 5"
    by (simp add: Speller_eval_def loc_speller_def)
  ultimately show ?thesis using loc_speller_init by simp
qed

text \<open>
  Claim C8. A decode call that takes the teacher-forced branch returns the diagnostics
  dictionary as it was initialised: empty in training mode, and with the two keys bound
  to empty lists otherwise, so no attention score and no sequence symbol is collected.
  In training mode the dictionary is empty in either branch.
\<close>

theorem teacher_forced_no_diagnostics:
  assumes "fst (forward self nt g inputs enc ratio lm) = Inr (outs, ret)"
  shows "(samples g (drawn g) < ratio \<longrightarrow>
            ret = (if training self then Map.empty
                   else [KEY_ATTENTION_SCORE \<mapsto> [], KEY_SEQUENCE_SYMBOL \<mapsto> []])) \<and>
         (training self \<longrightarrow> ret = Map.empty)"
proof -
  from forward_Inr[OF assms] obtain inputs' B ml lm' where
    tf: "samples g (drawn g) < ratio \<Longrightarrow>
       teacher_forced self nt inputs' B enc = Inr outs \<and> ret = init_ret_dict self"
    and fr: "\<not> samples g (drawn g) < ratio \<Longrightarrow>
       free_running self nt inputs' ml enc lm' (init_ret_dict self) = Inr (outs, ret)"
    by blast
  have a: "ret = (if training self then Map.empty
                   else [KEY_ATTENTION_SCORE \<mapsto> [], KEY_SEQUENCE_SYMBOL \<mapsto> []])"
    if "samples g (drawn g) < ratio"
    using tf[OF that] by (simp add: init_ret_dict_def)
  have b: "ret = Map.empty" if t: "training self"
  proof (cases "samples g (drawn g) < ratio")
    case True
    from a[OF True] t show ?thesis by simp
  next
    case False
    from fr[OF False] obtain iv st where
      l: "free_running_loop self nt enc lm' (nat ml)
       \<lparr>st_input_var = iv, st_hidden = None, st_attn = None,
        st_prev_tokens = (if lm' \<noteq> None then Some iv else None),
        st_decoder_outputs = [], st_ret_dict = init_ret_dict self\<rparr> = Inr st"
      and r: "ret = st_ret_dict st"
      by (rule free_running_Inr)
    from free_running_loop_training[OF t l] r t show ?thesis
      by (simp add: init_ret_dict_def)
  qed
  from a b show ?thesis by blast
qed

theorem teacher_forced_no_diagnostics_witness:
  "samples demo_rng (drawn demo_rng) < 1 \<and>
   map_sum id snd
     (fst (forward (Speller_eval loc_speller) (demo_net 1 3 2) demo_rng
        (Some \<lparr>shape = [2, 3], data = [1, 0, 2, 1, 0, 2]\<rparr>) (const_tensor [2, 4, 1] 0) 1 None))
     = Inr [KEY_ATTENTION_SCORE \<mapsto> [], KEY_SEQUENCE_SYMBOL \<mapsto> []] \<and>
   training loc_speller \<and>
   map_sum id snd
     (fst (forward loc_speller (demo_net 1 3 2) demo_rng
        (Some \<lparr>shape = [2, 3], data = [1, 0, 2, 1, 0, 2]\<rparr>) (const_tensor [2, 4, 1] 0) 1 None))
     = Inr Map.empty"
proof -
  have s: "samples demo_rng (drawn demo_rng) < 1"
    by (simp add: demo_rng_def)
  have "map_sum id (\<lambda>r. ())
     (fst (forward (Speller_eval loc_speller) (demo_net 1 3 2) demo_rng
        (Some \<lparr>shape = [2, 3], data = [1, 0, 2, 1, 0, 2]\<rparr>) (const_tensor [2, 4, 1] 0) 1 None))
     = Inr ()"
    by code_simp
  then obtain outs ret where
    e: "fst (forward (Speller_eval loc_speller) (demo_net 1 3 2) demo_rng
        (Some \<lparr>shape = [2, 3], data = [1, 0, 2, 1, 0, 2]\<rparr>) (const_tensor [2, 4, 1] 0) 1 None)
        = Inr (outs, ret)"
    by (cases "fst (forward (Speller_eval loc_speller) (demo_net 1 3 2) demo_rng
        (Some \<lparr>shape = [2, 3], data = [1, 0, 2, 1, 0, 2]\<rparr>) (const_tensor [2, 4, 1] 0) 1 None)")
       auto
  have "map_sum id (\<lambda>r. ())
     (fst (forward loc_speller (demo_net 1 3 2) demo_rng
        (Some \<lparr>shape = [2, 3], data = [1, 0, 2, 1, 0, 2]\<rparr>) (const_tensor [2, 4, 1] 0) 1 None))
     = Inr ()"
    by code_simp
  then obtain outs' ret' where
    e': "fst (forward loc_speller (demo_net 1 3 2) demo_rng
        (Some \<lparr>shape = [2, 3], data = [1, 0, 2, 1, 0, 2]\<rparr>) (const_tensor [2, 4, 1] 0) 1 None)
        = Inr (outs', ret')"
    by (cases "fst (forward loc_speller (demo_net 1 3 2) demo_rng
        (Some \<lparr>shape = [2, 3], data = [1, 0, 2, 1, 0, 2]\<rparr>) (const_tensor [2, 4, 1] 0) 1 None)")
       auto
  have t: "training loc_speller" by (simp add: loc_speller_def)
  from teacher_forced_no_diagnostics [OF e] s
  have r: "ret = [KEY_ATTENTION_SCORE \<mapsto> [], KEY_SEQUENCE_SYMBOL \<mapsto> []]"
    by (simp add: Speller_eval_def)
  from teacher_forced_no_diagnostics [OF e'] t have r': "ret' = Map.empty"
    by simp
  from s t e e' r r' show ?thesis by simp
qed

subsection \<open>Claims about the teacher-forced branch\<close>

text \<open>
  Claim C1, as the code has it. The targets are a batch of \<open>B\<close> rows of length \<open>L\<close>,
  \<open>B\<close> being the batch size of the encoder output, and every row keeps \<open>L - 1\<close>
  tokens when its end-of-sequence tokens are removed (it holds exactly one). With
  teacher-forcing probability 1 the sample of the random source, which is below 1, selects
  the teacher-forced branch, and a call that returns, under location-aware attention or
  with \<open>L \<noteq> 2\<close>, returns a trace of exactly \<open>L - 1\<close> entries.
\<close>

theorem teacher_forced_trace_length:
  assumes "shape targets = [B, L]" and "length (data targets) = B * L" and "0 < L"
    and "tensor_size enc 0 = Inr B"
    and "non_eos_per_row self targets = replicate B (L - 1)"
    and "samples g (drawn g) < 1"
    and "attn_mechanism self = ''loc'' \<or> L \<noteq> 2"
    and "fst (forward self nt g (Some targets) enc 1 lm) = Inr (outs, ret)"
  shows "teacher_forced self nt targets B enc = Inr outs \<and> length outs = L - 1"
proof -
  have v: "validate_args self (Some targets) enc 1 lm
             = Inr (targets, B, int L - 1, map_option eval_mode lm)"
    using assms(1,4) by (simp add: validate_args_def tensor_size_def)
  from forward_Inr[OF assms(8)] assms(6) v
  have tf: "teacher_forced self nt targets B enc = Inr outs"
    by auto
  have B: "0 < B"
    using teacher_forced_loc[OF tf] teacher_forced_dot[OF tf] by blast
  from equal_rows_steps[OF assms(1,2,5) B]
  have n: "length (non_eos self targets) div B = L - 1" .
  from assms(3,7) have "attn_mechanism self = ''loc'' \<or> L - 1 \<noteq> 1"
    by auto
  with teacher_forced_length[OF tf] n have "length outs = L - 1"
    by simp
  with tf show ?thesis by simp
qed

theorem teacher_forced_trace_length_witness:
  "shape \<lparr>shape = [2, 3], data = [1, 0, 2, 1, 0, 2 :: int]\<rparr> = [2, 3] \<and>
   length (data \<lparr>shape = [2, 3], data = [1, 0, 2, 1, 0, 2 :: int]\<rparr>) = 2 * 3 \<and>
   tensor_size (const_tensor [2, 4, 1] (0 :: real)) 0 = Inr 2 \<and>
   non_eos_per_row dot_speller \<lparr>shape = [2, 3], data = [1, 0, 2, 1, 0, 2]\<rparr> = replicate 2 (3 - 1) \<and>
   samples demo_rng (drawn demo_rng) < 1 \<and>
   map_sum id (length \<circ> fst)
     (fst (forward dot_speller (demo_net 1 3 2) demo_rng
        (Some \<lparr>shape = [2, 3], data = [1, 0, 2, 1, 0, 2]\<rparr>) (const_tensor [2, 4, 1] 0) 1 None))
     = Inr (3 - 1)"
proof -
  have sh: "shape \<lparr>shape = [2, 3], data = [1, 0, 2, 1, 0, 2 :: int]\<rparr> = [2, 3]"
    by simp
  have ln: "length (data \<lparr>shape = [2, 3], data = [1, 0, 2, 1, 0, 2 :: int]\<rparr>) = 2 * 3"
    by simp
  have L: "0 < (3 :: nat)" by simp
  have en: "tensor_size (const_tensor [2, 4, 1] (0 :: real)) 0 = Inr 2"
    by (simp add: tensor_size_def const_tensor_def)
  have rows: "non_eos_per_row dot_speller \<lparr>shape = [2, 3], data = [1, 0, 2, 1, 0, 2]\<rparr>
                = replicate 2 (3 - 1)"
    by code_simp
  have s: "samples demo_rng (drawn demo_rng) < 1"
    by (simp add: demo_rng_def)
  have a: "attn_mechanism dot_speller = ''loc'' \<or> (3 :: nat) \<noteq> 2"
    by simp
  have "map_sum id (\<lambda>r. ())
     (fst (forward dot_speller (demo_net 1 3 2) demo_rng
        (Some \<lparr>shape = [2, 3], data = [1, 0, 2, 1, 0, 2]\<rparr>) (const_tensor [2, 4, 1] 0) 1 None))
     = Inr ()"
    by code_simp
  then obtain outs ret where
    e: "fst (forward dot_speller (demo_net 1 3 2) demo_rng
        (Some \<lparr>shape = [2, 3], data = [1, 0, 2, 1, 0, 2]\<rparr>) (const_tensor [2, 4, 1] 0) 1 None)
        = Inr (outs, ret)"
    by (cases "fst (forward dot_speller (demo_net 1 3 2) demo_rng
        (Some \<lparr>shape = [2, 3], data = [1, 0, 2, 1, 0, 2]\<rparr>) (const_tensor [2, 4, 1] 0) 1 None)")
       auto
  from teacher_forced_trace_length [OF sh ln L en rows s a e]
  have "length outs = 3 - 1" by simp
  with sh ln en rows s e show ?thesis by simp
qed

text \<open>
  Without the condition on the end-of-sequence tokens the length is not \<open>L - 1\<close>: a
  single target row of length 3 that holds no end-of-sequence token gives a trace of 3
  entries.
\<close>

theorem teacher_forced_trace_length_counterexample:
  "tensor_size \<lparr>shape = [1, 3], data = [1, 0, 0 :: int]\<rparr> 1 = Inr 3 \<and>
   map_sum id (length \<circ> fst)
     (fst (forward loc_speller (demo_net 1 3 2) demo_rng
        (Some \<lparr>shape = [1, 3], data = [1, 0, 0]\<rparr>) (const_tensor [1, 4, 1] 0) 1 None)) = Inr 3 \<and>
   (3 :: nat) \<noteq> 3 - 1"
  by code_simp

text \<open>
  Claim C10, as the code has it. Line 113 keeps exactly the tokens different from the
  end-of-sequence id, in order, and its reshape succeeds if and only if the batch size is
  positive and divides the number of tokens kept; the reshaped input then has that number
  divided by the batch size as its width. A teacher-forced run that returns (under
  multi-head attention with a width other than 1) has a trace of exactly that many
  entries; the length cap of the validation is not an argument of the branch. When every
  row of a well-formed batch keeps the same number \<open>k\<close> of tokens, the reshape succeeds
  and the width is \<open>k\<close>.
\<close>

theorem eos_stripping_and_steps:
  "(view (masked_ne inputs (eos_id self)) [int B, -1] = Inr t \<longleftrightarrow>
      0 < B \<and> B dvd length (non_eos self inputs) \<and>
      t = \<lparr>shape = [B, length (non_eos self inputs) div B], data = non_eos self inputs\<rparr>) \<and>
   (teacher_forced self nt inputs B enc = Inr outs \<and>
    (attn_mechanism self = ''loc'' \<or> length (non_eos self inputs) div B \<noteq> 1) \<longrightarrow>
      0 < B \<and> B dvd length (non_eos self inputs) \<and>
      length outs = length (non_eos self inputs) div B) \<and>
   (shape inputs = [B, L] \<and> length (data inputs) = B * L \<and> 0 < B \<and>
    non_eos_per_row self inputs = replicate B k \<longrightarrow>
      length (non_eos self inputs) div B = k \<and>
      view (masked_ne inputs (eos_id self)) [int B, -1]
        = Inr \<lparr>shape = [B, k], data = non_eos self inputs\<rparr>)"
  using strip_eos_iff[of inputs self B t] teacher_forced_length[of self nt inputs B enc outs]
    equal_rows_steps[of inputs B L self k] equal_rows_reshape[of inputs B L self k]
  by blast

theorem eos_stripping_and_steps_witness:
  "view (masked_ne \<lparr>shape = [2, 3], data = [1, 0, 2, 1, 0, 2]\<rparr> (eos_id loc_speller)) [int 2, -1]
     = Inr \<lparr>shape = [2, 2], data = [1, 0, 1, 0]\<rparr> \<and>
   map_sum id length
     (teacher_forced loc_speller (demo_net 1 3 2) \<lparr>shape = [2, 3], data = [1, 0, 2, 1, 0, 2]\<rparr> 2
        (const_tensor [2, 4, 1] 0)) = Inr 2 \<and>
   non_eos_per_row loc_speller \<lparr>shape = [2, 3], data = [1, 0, 2, 1, 0, 2]\<rparr> = replicate 2 2 \<and>
   length (non_eos loc_speller \<lparr>shape = [2, 3], data = [1, 0, 2, 1, 0, 2]\<rparr>) div 2 = 2"
proof -
  have ne: "non_eos loc_speller \<lparr>shape = [2, 3], data = [1, 0, 2, 1, 0, 2]\<rparr> = [1, 0, 1, 0]"
    by code_simp
  have rows: "non_eos_per_row loc_speller \<lparr>shape = [2, 3], data = [1, 0, 2, 1, 0, 2]\<rparr>
                = replicate 2 2"
    by code_simp
  have "map_sum id (\<lambda>r. ())
     (teacher_forced loc_speller (demo_net 1 3 2) \<lparr>shape = [2, 3], data = [1, 0, 2, 1, 0, 2]\<rparr> 2
        (const_tensor [2, 4, 1] 0)) = Inr ()"
    by code_simp
  then obtain outs where
    e: "teacher_forced loc_speller (demo_net 1 3 2) \<lparr>shape = [2, 3], data = [1, 0, 2, 1, 0, 2]\<rparr> 2
        (const_tensor [2, 4, 1] 0) = Inr outs"
    by (cases "teacher_forced loc_speller (demo_net 1 3 2)
                 \<lparr>shape = [2, 3], data = [1, 0, 2, 1, 0, 2]\<rparr> 2 (const_tensor [2, 4, 1] 0)") auto
  have a: "attn_mechanism loc_speller = ''loc''"
    by (simp add: loc_speller_def)
  from eos_stripping_and_steps
         [of "\<lparr>shape = [2, 3], data = [1, 0, 2, 1, 0, 2]\<rparr>" loc_speller 2
             "\<lparr>shape = [2, 2], data = [1, 0, 1, 0]\<rparr>" "demo_net 1 3 2" "const_tensor [2, 4, 1] 0"
             outs 3 2]
       ne rows e a
  show ?thesis by simp
qed

text \<open>
  Equal counts per row are not necessary for the reshape: rows keeping 3 and 1 tokens
  are reshaped to two rows of 2, and the call goes on to return a trace of 2 entries.
\<close>

theorem eos_stripping_and_steps_counterexample:
  "non_eos_per_row loc_speller \<lparr>shape = [2, 3], data = [1, 0, 0, 1, 2, 2]\<rparr> = [3, 1] \<and>
   view (masked_ne \<lparr>shape = [2, 3], data = [1, 0, 0, 1, 2, 2]\<rparr> (eos_id loc_speller)) [2, -1]
     = Inr \<lparr>shape = [2, 2], data = [1, 0, 0, 1]\<rparr> \<and>
   map_sum id length
     (teacher_forced loc_speller (demo_net 1 3 2) \<lparr>shape = [2, 3], data = [1, 0, 0, 1, 2, 2]\<rparr> 2
        (const_tensor [2, 4, 1] 0)) = Inr 2"
  by code_simp

text \<open>
  Claim C7. Under multi-head attention the teacher-forced branch makes one batched call
  of \<open>forward_step\<close> and cuts its result along the time axis, which is meant to give the
  distributions a step-by-step loop gives. For targets that keep a single token per row
  the code does not: \<^verbatim>\<open>squeeze(1)\<close> (line 95) removes the time axis of extent 1, line 126
  then counts classes, and line 127 indexes a two-dimensional tensor with three indices.
  The call below, with one target row \<^verbatim>\<open>[sos, eos]\<close>, ends in IndexError, while the loop
  of lines 118 to 121 on the same stripped input yields one distribution of shape (1, 3).
  Lemma \<open>dot_single_column\<close> shows that no network makes such a call return a
  distribution.
\<close>

theorem batched_single_position_raises:
  "fst (forward dot_speller (demo_net 1 3 2) demo_rng (Some \<lparr>shape = [1, 2], data = [1, 2]\<rparr>)
          (const_tensor [1, 4, 1] 0) 1 None)
     = Inl (IndexError ''too many indices for tensor'') \<and>
   map_sum id (map shape \<circ> snd \<circ> snd)
     (loc_loop dot_speller (demo_net 1 3 2) \<lparr>shape = [1, 1], data = [1]\<rparr>
        (const_tensor [1, 4, 1] 0) [0] (None, None, [])) = Inr [[1, 3]]"
proof -
  have "map_sum id (\<lambda>r. ())
          (fst (forward dot_speller (demo_net 1 3 2) demo_rng
             (Some \<lparr>shape = [1, 2], data = [1, 2]\<rparr>) (const_tensor [1, 4, 1] 0) 1 None))
        = Inl (IndexError ''too many indices for tensor'')"
    by code_simp
  then have a: "fst (forward dot_speller (demo_net 1 3 2) demo_rng
             (Some \<lparr>shape = [1, 2], data = [1, 2]\<rparr>) (const_tensor [1, 4, 1] 0) 1 None)
        = Inl (IndexError ''too many indices for tensor'')"
    by (cases "fst (forward dot_speller (demo_net 1 3 2) demo_rng
             (Some \<lparr>shape = [1, 2], data = [1, 2]\<rparr>) (const_tensor [1, 4, 1] 0) 1 None)") auto
  have b: "map_sum id (map shape \<circ> snd \<circ> snd)
     (loc_loop dot_speller (demo_net 1 3 2) \<lparr>shape = [1, 1], data = [1]\<rparr>
        (const_tensor [1, 4, 1] 0) [0] (None, None, [])) = Inr [[1, 3]]"
    by code_simp
  from a b show ?thesis by simp
qed

subsection \<open>Claims about language-model fusion\<close>

text \<open>
  Claim C2. Line 143 is meant to record 0.9 times the acoustic distribution plus 0.1 times
  the language model's. It reads the attribute \<^verbatim>\<open>acoustic_weight\<close>, but \<^verbatim>\<open>__init__\<close> stores
  the weight under the name \<^verbatim>\<open>acoutsic_weight\<close> (line 57): on a decoder built by
  \<^verbatim>\<open>__init__\<close> and switched to evaluation mode, a free-running call with a language model
  attached ends in AttributeError at its first step. Lemma \<open>fused_step_never_returns\<close>
  shows this for every constructed decoder and every network.
\<close>

theorem fusion_raises_attribute_error:
  "Speller_init 3 5 1 1 2 ''dot'' 1 = Inr dot_speller \<and>
   fst (forward (Speller_eval dot_speller) (demo_net 1 3 2) demo_rng None
          (const_tensor [2, 4, 1] 0) 0 (Some (demo_lm 2 3)))
     = Inl (AttributeError ''acoustic_weight'')"
proof -
  have "map_sum id (\<lambda>r. ())
          (fst (forward (Speller_eval dot_speller) (demo_net 1 3 2) demo_rng None
             (const_tensor [2, 4, 1] 0) 0 (Some (demo_lm 2 3))))
        = Inl (AttributeError ''acoustic_weight'')"
    by code_simp
  then have "fst (forward (Speller_eval dot_speller) (demo_net 1 3 2) demo_rng None
          (const_tensor [2, 4, 1] 0) 0 (Some (demo_lm 2 3)))
     = Inl (AttributeError ''acoustic_weight'')"
    by (cases "fst (forward (Speller_eval dot_speller) (demo_net 1 3 2) demo_rng None
          (const_tensor [2, 4, 1] 0) 0 (Some (demo_lm 2 3)))") auto
  with dot_speller_init show ?thesis by simp
qed

text \<open>
  Claim C9. A free-running step with a language model attached hands on exactly the
  recurrent state (and the alignment) that \<open>forward_step\<close> produced. What fusion changes
  is the distribution: outside training mode the distribution recorded, and from which
  the next input token is chosen, is the first result of \<open>fuse\<close>, whose second result
  is the new token history; in training mode it is the distribution of \<open>forward_step\<close>.
\<close>

theorem fusion_keeps_recurrent_state:
  assumes "free_running_step self nt enc (Some lm) st = Inr st'"
    and "forward_step self nt (st_input_var st) (st_hidden st) enc (st_attn st)
           = Inr (step_output, hidden', attn')"
  shows "st_hidden st' = hidden' \<and> st_attn st' = attn' \<and>
         (\<exists>d. st_decoder_outputs st' = st_decoder_outputs st @ [d] \<and>
              st_input_var st' = topk1 nt d \<and>
              (training self \<longrightarrow> d = step_output) \<and>
              (\<not> training self \<longrightarrow>
                 fuse self nt lm step_output (st_prev_tokens st) = Inr (d, st_prev_tokens st')))"
proof -
  from assms(1) obtain so h a d so' pt' where
    fs: "forward_step self nt (st_input_var st) (st_hidden st) enc (st_attn st) = Inr (so, h, a)"
    and c: "collect self nt (Some lm) st so a = Inr (d, so', pt')"
    and st': "st' = \<lparr>st_input_var = topk1 nt so', st_hidden = h, st_attn = a,
           st_prev_tokens = pt',
           st_decoder_outputs = st_decoder_outputs st @ [so'],
           st_ret_dict = d\<rparr>"
    by (rule free_running_step_Inr)
  from fs assms(2) have eq: "so = step_output" "h = hidden'" "a = attn'"
    by simp_all
  have t: "so' = step_output" if "training self"
    using c collect_training[OF that, of nt "Some lm" st so a] eq by simp
  have f: "fuse self nt lm step_output (st_prev_tokens st) = Inr (so', pt')" if "\<not> training self"
    using collect_fused[OF c that] eq by simp
  from st' eq t f show ?thesis by simp
qed

theorem fusion_keeps_recurrent_state_witness:
  "forward_step patched_speller (demo_net 1 3 2) (st_input_var (first_state patched_speller))
     (st_hidden (first_state patched_speller)) (const_tensor [2, 4, 1] 0)
     (st_attn (first_state patched_speller))
     = Inr (const_tensor [2, 3] 1, Some [], Some (const_tensor [2, 4] 0)) \<and>
   map_sum id st_hidden
     (free_running_step patched_speller (demo_net 1 3 2) (const_tensor [2, 4, 1] 0)
        (Some (demo_lm 2 3)) (first_state patched_speller)) = Inr (Some []) \<and>
   map_sum id st_attn
     (free_running_step patched_speller (demo_net 1 3 2) (const_tensor [2, 4, 1] 0)
        (Some (demo_lm 2 3)) (first_state patched_speller)) = Inr (Some (const_tensor [2, 4] 0)) \<and>
   map_sum id st_decoder_outputs
     (free_running_step patched_speller (demo_net 1 3 2) (const_tensor [2, 4, 1] 0)
        (Some (demo_lm 2 3)) (first_state patched_speller)) = Inr [const_tensor [2, 3] (11 / 10)] \<and>
   map_sum id st_hidden
     (free_running_step dot_speller (demo_net 1 3 2) (const_tensor [2, 4, 1] 0)
        (Some (demo_lm 2 3)) (first_state dot_speller)) = Inr (Some []) \<and>
   map_sum id st_decoder_outputs
     (free_running_step dot_speller (demo_net 1 3 2) (const_tensor [2, 4, 1] 0)
        (Some (demo_lm 2 3)) (first_state dot_speller)) = Inr [const_tensor [2, 3] 1]"
proof -
  have fs: "forward_step patched_speller (demo_net 1 3 2) (st_input_var (first_state patched_speller))
     (st_hidden (first_state patched_speller)) (const_tensor [2, 4, 1] 0)
     (st_attn (first_state patched_speller))
     = Inr (const_tensor [2, 3] 1, Some [], Some (const_tensor [2, 4] 0))"
    by code_simp
  have "map_sum id (\<lambda>r. ())
     (free_running_step patched_speller (demo_net 1 3 2) (const_tensor [2, 4, 1] 0)
        (Some (demo_lm 2 3)) (first_state patched_speller)) = Inr ()"
    by code_simp
  then obtain st' where
    e: "free_running_step patched_speller (demo_net 1 3 2) (const_tensor [2, 4, 1] 0)
        (Some (demo_lm 2 3)) (first_state patched_speller) = Inr st'"
    by (cases "free_running_step patched_speller (demo_net 1 3 2) (const_tensor [2, 4, 1] 0)
        (Some (demo_lm 2 3)) (first_state patched_speller)") auto
  have fu: "map_sum id fst
      (fuse patched_speller (demo_net 1 3 2) (demo_lm 2 3) (const_tensor [2, 3] 1)
         (st_prev_tokens (first_state patched_speller))) = Inr (const_tensor [2, 3] (11 / 10))"
    by code_simp
  have ev: "\<not> training patched_speller" "st_decoder_outputs (first_state patched_speller) = []"
    by (simp_all add: patched_speller_def first_state_def)
  from fusion_keeps_recurrent_state [OF e fs] ev fu
  have p: "st_hidden st' = Some []" "st_attn st' = Some (const_tensor [2, 4] 0)"
    "st_decoder_outputs st' = [const_tensor [2, 3] (11 / 10)]"
    by auto
  have fs2: "forward_step dot_speller (demo_net 1 3 2) (st_input_var (first_state dot_speller))
     (st_hidden (first_state dot_speller)) (const_tensor [2, 4, 1] 0)
     (st_attn (first_state dot_speller))
     = Inr (const_tensor [2, 3] 1, Some [], Some (const_tensor [2, 4] 0))"
    by code_simp
  have "map_sum id (\<lambda>r. ())
     (free_running_step dot_speller (demo_net 1 3 2) (const_tensor [2, 4, 1] 0)
        (Some (demo_lm 2 3)) (first_state dot_speller)) = Inr ()"
    by code_simp
  then obtain st2 where
    e2: "free_running_step dot_speller (demo_net 1 3 2) (const_tensor [2, 4, 1] 0)
        (Some (demo_lm 2 3)) (first_state dot_speller) = Inr st2"
    by (cases "free_running_step dot_speller (demo_net 1 3 2) (const_tensor [2, 4, 1] 0)
        (Some (demo_lm 2 3)) (first_state dot_speller)") auto
  have tr: "training dot_speller" "st_decoder_outputs (first_state dot_speller) = []"
    by (simp_all add: dot_speller_def first_state_def)
  from fusion_keeps_recurrent_state [OF e2 fs2] tr
  have q: "st_hidden st2 = Some []" "st_decoder_outputs st2 = [const_tensor [2, 3] 1]"
    by auto
  from fs e p e2 q show ?thesis by simp
qed

end
